theory Spec2Isabelle
  imports Complex_Main "HOL-Library.AList"
begin

section \<open>HTTP values shared by the wrappers\<close>

text \<open>
  The identity of a span as the tracer serialises it into headers: trace id and span id.
\<close>

datatype span_context = SpanContext (trace_id: nat) (span_id: nat)

text \<open>
  An \<open>opentracing.Span\<close> is a handle handed out by the tracer; \<open>sp.Context()\<close> reads
  \<open>sp_context\<close>.
\<close>

record span =
  sp_handle :: nat
  sp_context :: span_context

text \<open>
  \<open>url.URL\<close>: the wrappers read \<open>Path\<close> and call \<open>String()\<close>, whose rendering belongs
  to the standard library and is carried as a field.
\<close>

record url =
  Path :: string
  String :: string

type_synonym header = "(string \<times> string) list"

text \<open>
  \<open>http.Request\<close>. \<open>ActiveSpan\<close> is what \<open>opentracing.SpanFromContext(r.Context())\<close>
  returns (\<open>None\<close> is nil); \<open>r.WithContext(opentracing.ContextWithSpan(ctx, sp))\<close> is the
  update \<open>r\<lparr>ActiveSpan := Some sp\<rparr>\<close>.
\<close>

record request =
  Method :: string
  URL :: url
  Header :: header
  ActiveSpan :: "span option"

section \<open>The tracer\<close>

text \<open>
  The options the wrappers pass to \<open>StartSpan\<close>, and what the opentracing library makes
  of them: \<open>ChildOf\<close> adds a reference, \<open>ext.SpanKindRPCClient\<close> sets the tag
  \<open>span.kind = client\<close>, \<open>ext.RPCServerOption(sc)\<close> adds a \<open>ChildOf\<close> reference when
  \<open>sc\<close> is not nil and sets \<open>span.kind = server\<close>.
\<close>

datatype start_opt =
    SpanKindRPCClient
  | ChildOf span_context
  | RPCServerOption "span_context option"

fun references :: "start_opt list \<Rightarrow> span_context list" where
  "references [] = []"
| "references (SpanKindRPCClient # os) = references os"
| "references (ChildOf c # os) = c # references os"
| "references (RPCServerOption None # os) = references os"
| "references (RPCServerOption (Some c) # os) = c # references os"

fun span_kind :: "start_opt list \<Rightarrow> string option" where
  "span_kind [] = None"
| "span_kind (SpanKindRPCClient # os) =
     (case span_kind os of None \<Rightarrow> Some ''client'' | Some k \<Rightarrow> Some k)"
| "span_kind (ChildOf c # os) = span_kind os"
| "span_kind (RPCServerOption sc # os) =
     (case span_kind os of None \<Rightarrow> Some ''server'' | Some k \<Rightarrow> Some k)"

text \<open>
  \<open>opentracing.Tracer\<close>, an interface of three methods. \<open>Extract\<close> returns the pair
  (span context, error) of the Go method; \<open>Inject\<close> returns the carrier after the call
  (its error is discarded by the caller).
\<close>

record tracer =
  StartSpan :: "string \<Rightarrow> start_opt list \<Rightarrow> span"
  Extract :: "header \<Rightarrow> span_context option \<times> string option"
  Inject :: "span_context \<Rightarrow> header \<Rightarrow> header"

text \<open>
  \<open>opentracing.NoopTracer\<close>, the value of \<open>opentracing.GlobalTracer()\<close> until a tracer
  is registered: every span is the same inert span, nothing is extracted or injected.
\<close>

definition NoopTracer :: tracer where
  "NoopTracer =
     \<lparr> StartSpan = (\<lambda>name opts. \<lparr> sp_handle = 0, sp_context = SpanContext 0 0 \<rparr>),
       Extract = (\<lambda>h. (None, Some ''opentracing: SpanContext not found in Extract carrier'')),
       Inject = (\<lambda>c h. h) \<rparr>"

section \<open>Option (package opentracing)\<close>

text \<open>
  The function-typed fields are \<open>None\<close> when nil. \<open>SpanObserver\<close> returns nothing: its
  call is an event of the wrapper, what it does to the span is the observer's own.
\<close>

record Option =
  Tracer :: "tracer option"
  ComponentName :: string
  ComponentNameFunc :: "(request \<Rightarrow> string) option"
  URLTagFunc :: "(url \<Rightarrow> string) option"
  SpanFilter :: "(request \<Rightarrow> bool) option"
  OperationNameFunc :: "(request \<Rightarrow> string) option"
  SpanObserver :: "(request \<Rightarrow> span \<Rightarrow> unit) option"

definition default_ComponentNameFunc :: "request \<Rightarrow> string" where
  "default_ComponentNameFunc r = ''net/http''"

definition default_URLTagFunc :: "url \<Rightarrow> string" where
  "default_URLTagFunc u = String u"

definition default_SpanFilter :: "request \<Rightarrow> bool" where
  "default_SpanFilter r = False"

definition default_SpanObserver :: "request \<Rightarrow> span \<Rightarrow> unit" where
  "default_SpanObserver r sp = ()"

definition default_OperationNameFunc :: "request \<Rightarrow> string" where
  "default_OperationNameFunc r = ''HTTP '' @ Method r @ '' '' @ Path (URL r)"

definition Init :: "Option \<Rightarrow> Option" where
  "Init o0 =
    (let o1 = (if ComponentNameFunc o0 = None
               then o0\<lparr>ComponentNameFunc := Some default_ComponentNameFunc\<rparr> else o0);
         o2 = (if URLTagFunc o1 = None
               then o1\<lparr>URLTagFunc := Some default_URLTagFunc\<rparr> else o1);
         o3 = (if SpanFilter o2 = None
               then o2\<lparr>SpanFilter := Some default_SpanFilter\<rparr> else o2);
         o4 = (if SpanObserver o3 = None
               then o3\<lparr>SpanObserver := Some default_SpanObserver\<rparr> else o3);
         o5 = (if OperationNameFunc o4 = None
               then o4\<lparr>OperationNameFunc := Some default_OperationNameFunc\<rparr> else o4)
     in o5)"

section \<open>Writers, handlers, transports\<close>

text \<open>
  An \<open>http.ResponseWriter\<close> value refers to a mutable object. \<open>wobj\<close> is the object;
  \<open>has_StatusCode\<close> says whether its dynamic type has the method \<open>StatusCode() int\<close>,
  that is, whether the type assertion to \<open>prometheus.ResponseWriter\<close> succeeds.
\<close>

record writer =
  wobj :: nat
  has_StatusCode :: bool

text \<open>
  What the wrapped components can change and the wrappers read afterwards: the status
  code each writer object reports, the monotonic clock (nanoseconds), and the metric names
  registered with each registerer (\<open>None\<close> is \<open>prometheus.DefaultRegisterer\<close>).
\<close>

record world =
  codes :: "nat \<Rightarrow> int"
  now :: nat
  registered :: "(nat option \<times> string) list"

record response =
  resp_StatusCode :: int

text \<open>A call of a wrapped component returns or panics.\<close>

datatype 'a outcome = Returns 'a | Panics

text \<open>
  An \<open>http.Handler\<close>. \<open>handleHTTP\<close> is present exactly when the dynamic type also
  implements \<open>middlewares.Handler\<close> (\<open>HandleHTTP(w, r) error\<close>); an error is its message.
  A handler is given the request by pointer and may write to it: besides its outcome and
  the world, a call yields the request as the handler leaves it.
\<close>

datatype handler = HTTPHandler
  (hid: nat)
  (serveHTTP: "writer \<Rightarrow> request \<Rightarrow> world \<Rightarrow> unit outcome \<times> request \<times> world")
  (handleHTTP:
     "(writer \<Rightarrow> request \<Rightarrow> world \<Rightarrow> string option outcome \<times> request \<times> world) option")

text \<open>An \<open>http.RoundTripper\<close>: \<open>RoundTrip(req)\<close> returns the pair (response, error).\<close>

datatype transport = HTTPTransport
  (tid: nat)
  (roundTripper: "request \<Rightarrow> world \<Rightarrow> (response option \<times> string option) outcome \<times> world")

text \<open>Process-wide values: \<open>opentracing.GlobalTracer()\<close> and \<open>http.DefaultTransport\<close>.\<close>

record globals =
  GlobalTracer :: tracer
  DefaultTransport :: transport

section \<open>Programs: the calls a wrapper makes, in order\<close>

text \<open>
  Every call a wrapper makes on a collaborator whose effect lies outside the wrapper is
  an event. A writer or a request in an event is the object the wrapper hands over, in the
  state the wrapper gives it. A \<open>prometheus.Labels\<close> map from label name to value is an
  association list with one entry for each key.
\<close>

datatype event =
    Call_Start writer request
  | Call_Extract header
  | Call_StartSpan string "start_opt list" span
  | Call_SetTag span string string
  | Call_SpanObserver request span
  | Call_Inject span_context header
  | Call_Finish span
  | Call_End writer request span
  | Call_ServeHTTP nat writer request
  | Call_HandleHTTP nat writer request
  | Call_RoundTrip nat request
  | Call_NewCounterVec "nat option" string string string "string list"
  | Call_NewHistogramVec "nat option" string string string "real list" "string list"
  | Call_Inc string "(string \<times> string) list"
  | Call_Observe string "(string \<times> string) list" int

text \<open>
  Why a run panics: a nil function, handler or vector is called; the wrapped component
  panicked; or the metrics library refused a registration, a label map, a label value or
  the buckets of a histogram.
\<close>

datatype panic =
    NilDereference
  | Propagated
  | RegistrationFailed
  | InconsistentCardinality
  | InvalidLabelValue
  | BucketsNotIncreasing

datatype 'a result = Return 'a | Panic panic

type_synonym 'a prog = "world \<Rightarrow> 'a result \<times> event list \<times> world"

definition ret :: "'a \<Rightarrow> 'a prog" where
  "ret x s = (Return x, [], s)"

definition raise :: "panic \<Rightarrow> 'a prog" where
  "raise p s = (Panic p, [], s)"

definition emit :: "event \<Rightarrow> unit prog" where
  "emit e s = (Return (), [e], s)"

definition bind :: "'a prog \<Rightarrow> ('a \<Rightarrow> 'b prog) \<Rightarrow> 'b prog" where
  "bind m f s =
     (case m s of
        (Return x, es, s1) \<Rightarrow> (case f x s1 of (r, es', s2) \<Rightarrow> (r, es @ es', s2))
      | (Panic p, es, s1) \<Rightarrow> (Panic p, es, s1))"

text \<open>
  \<open>defer d; body\<close>: the deferred call runs when the body is left, by return or by panic;
  with several defers the last registered is the innermost and runs first.
\<close>

definition deferred :: "unit prog \<Rightarrow> 'a prog \<Rightarrow> 'a prog" where
  "deferred d body s =
     (case body s of (r, es, s1) \<Rightarrow>
        (case d s1 of
           (Return u, es', s2) \<Rightarrow> (r, es @ es', s2)
         | (Panic p, es', s2) \<Rightarrow> (Panic p, es @ es', s2)))"

text \<open>Calling a function-typed field: a nil function panics.\<close>

definition call :: "('a \<Rightarrow> 'b) option \<Rightarrow> 'a \<Rightarrow> 'b prog" where
  "call f x = (case f of None \<Rightarrow> raise NilDereference | Some fn \<Rightarrow> ret (fn x))"

definition call_SpanObserver :: "(request \<Rightarrow> span \<Rightarrow> unit) option \<Rightarrow> request \<Rightarrow> span \<Rightarrow> unit prog" where
  "call_SpanObserver f r sp =
     (case f of None \<Rightarrow> raise NilDereference | Some fn \<Rightarrow> emit (Call_SpanObserver r sp))"

text \<open>
  Calling a wrapped component: the call is an event, the component changes the world, and
  its panic propagates. A method call on a nil interface value panics before any call.
\<close>

fun propagate :: "'a outcome \<Rightarrow> 'a result" where
  "propagate (Returns x) = Return x"
| "propagate Panics = Panic Propagated"

definition call_ServeHTTP :: "handler option \<Rightarrow> writer \<Rightarrow> request \<Rightarrow> unit prog" where
  "call_ServeHTTP h w r s =
     (case h of
        None \<Rightarrow> (Panic NilDereference, [], s)
      | Some hh \<Rightarrow>
          (case serveHTTP hh w r s of
             (out, r1, s1) \<Rightarrow> (propagate out, [Call_ServeHTTP (hid hh) w r], s1)))"

definition call_RoundTrip :: "transport \<Rightarrow> request \<Rightarrow> (response option \<times> string option) prog" where
  "call_RoundTrip t req s =
     (case roundTripper t req s of
        (out, s1) \<Rightarrow> (propagate out, [Call_RoundTrip (tid t) req], s1))"

text \<open>The tracer's and the span's methods, as calls.\<close>

definition tracer_Extract :: "tracer \<Rightarrow> header \<Rightarrow> (span_context option \<times> string option) prog" where
  "tracer_Extract t h = bind (emit (Call_Extract h)) (\<lambda>u. ret (Extract t h))"

definition tracer_StartSpan :: "tracer \<Rightarrow> string \<Rightarrow> start_opt list \<Rightarrow> span prog" where
  "tracer_StartSpan t name opts =
     bind (emit (Call_StartSpan name opts (StartSpan t name opts))) (\<lambda>u. ret (StartSpan t name opts))"

definition tracer_Inject :: "tracer \<Rightarrow> span_context \<Rightarrow> header \<Rightarrow> header prog" where
  "tracer_Inject t c h = bind (emit (Call_Inject c h)) (\<lambda>u. ret (Inject t c h))"

definition SetTag :: "span \<Rightarrow> string \<Rightarrow> string \<Rightarrow> unit prog" where
  "SetTag sp k v = emit (Call_SetTag sp k v)"

definition Finish :: "span \<Rightarrow> unit prog" where
  "Finish sp = emit (Call_Finish sp)"

section \<open>Option: the getters\<close>

definition GetComponentName :: "Option \<Rightarrow> request \<Rightarrow> string prog" where
  "GetComponentName opt req =
     (if ComponentName opt = [] then call (ComponentNameFunc opt) req
      else ret (ComponentName opt))"

definition GetTracer :: "globals \<Rightarrow> Option \<Rightarrow> tracer" where
  "GetTracer g opt = (case Tracer opt of Some t \<Rightarrow> t | None \<Rightarrow> GlobalTracer g)"

section \<open>The tracing client wrapper\<close>

record RoundTripper =
  rt_RoundTripper :: "transport option"
  rt_Option :: Option

definition NewRoundTripper :: "transport option \<Rightarrow> RoundTripper" where
  "NewRoundTripper rt =
     (let roundTripper = \<lparr> rt_RoundTripper = rt,
            rt_Option = \<lparr> Tracer = None, ComponentName = [], ComponentNameFunc = None,
                          URLTagFunc = None, SpanFilter = None, OperationNameFunc = None,
                          SpanObserver = None \<rparr> \<rparr>
      in roundTripper\<lparr> rt_Option := Init (rt_Option roundTripper) \<rparr>)"

definition roundTrip :: "globals \<Rightarrow> RoundTripper \<Rightarrow> request \<Rightarrow> (response option \<times> string option) prog" where
  "roundTrip g rt req =
     (case rt_RoundTripper rt of
        None \<Rightarrow> call_RoundTrip (DefaultTransport g) req
      | Some t \<Rightarrow> call_RoundTrip t req)"

definition RoundTrip :: "globals \<Rightarrow> RoundTripper \<Rightarrow> request \<Rightarrow> (response option \<times> string option) prog" where
  "RoundTrip g rt req =
     bind (call (SpanFilter (rt_Option rt)) req) (\<lambda>filtered.
     if filtered then roundTrip g rt req
     else
       let ctx = ActiveSpan req;
           opts = (case ctx of
                     None \<Rightarrow> [SpanKindRPCClient]
                   | Some pspan \<Rightarrow> [ChildOf (sp_context pspan)]);
           tracer = GetTracer g (rt_Option rt)
       in
       bind (call (OperationNameFunc (rt_Option rt)) req) (\<lambda>name.
       bind (tracer_StartSpan tracer name opts) (\<lambda>sp.
       bind (call (URLTagFunc (rt_Option rt)) (URL req)) (\<lambda>u.
       bind (SetTag sp ''http.url'' u) (\<lambda>_.
       bind (GetComponentName (rt_Option rt) req) (\<lambda>c.
       bind (SetTag sp ''component'' c) (\<lambda>_.
       bind (SetTag sp ''http.method'' (Method req)) (\<lambda>_.
       bind (call_SpanObserver (SpanObserver (rt_Option rt)) req sp) (\<lambda>_.
       deferred (Finish sp)
         (bind (tracer_Inject tracer (sp_context sp) (Header req)) (\<lambda>carrier.
          roundTrip g rt (req\<lparr>Header := carrier, ActiveSpan := Some sp\<rparr>))))))))))))"

section \<open>The tracing server wrapper\<close>

record ServerHandler =
  sh_Handler :: "handler option"
  sh_Option :: Option
  Start :: "(writer \<Rightarrow> request \<Rightarrow> writer \<times> request) option"
  End :: "(writer \<Rightarrow> request \<Rightarrow> span \<Rightarrow> unit) option"

definition NewServerHandler :: "handler option \<Rightarrow> ServerHandler" where
  "NewServerHandler h =
     (let sh = \<lparr> sh_Handler = h,
            sh_Option = \<lparr> Tracer = None, ComponentName = [], ComponentNameFunc = None,
                          URLTagFunc = None, SpanFilter = None, OperationNameFunc = None,
                          SpanObserver = None \<rparr>,
            Start = None, End = None \<rparr>
      in sh\<lparr> sh_Option := Init (sh_Option sh) \<rparr>)"

definition WrappedHandler :: "ServerHandler \<Rightarrow> handler option" where
  "WrappedHandler sh = sh_Handler sh"

definition call_Start :: "(writer \<Rightarrow> request \<Rightarrow> writer \<times> request) \<Rightarrow> writer \<Rightarrow> request \<Rightarrow> (writer \<times> request) prog" where
  "call_Start f w r = bind (emit (Call_Start w r)) (\<lambda>u. ret (f w r))"

definition call_End :: "writer \<Rightarrow> request \<Rightarrow> span \<Rightarrow> unit prog" where
  "call_End w r sp = emit (Call_End w r sp)"

definition Serve :: "globals \<Rightarrow> ServerHandler \<Rightarrow> handler option \<Rightarrow> writer \<Rightarrow> request \<Rightarrow> unit prog" where
  "Serve g sh h w r =
     bind (call (SpanFilter (sh_Option sh)) r) (\<lambda>filtered.
     if filtered then call_ServeHTTP (sh_Handler sh) w r
     else
       bind (case Start sh of None \<Rightarrow> ret (w, r) | Some st \<Rightarrow> call_Start st w r) (\<lambda>(w1, r1).
       let tracer = GetTracer g (sh_Option sh) in
       bind (tracer_Extract tracer (Header r1)) (\<lambda>(sc, err).
       bind (call (OperationNameFunc (sh_Option sh)) r1) (\<lambda>name.
       bind (tracer_StartSpan tracer name [RPCServerOption sc]) (\<lambda>sp.
       bind (SetTag sp ''http.method'' (Method r1)) (\<lambda>_.
       bind (GetComponentName (sh_Option sh) r1) (\<lambda>c.
       bind (SetTag sp ''component'' c) (\<lambda>_.
       bind (call (URLTagFunc (sh_Option sh)) (URL r1)) (\<lambda>u.
       bind (SetTag sp ''http.url'' u) (\<lambda>_.
       bind (call_SpanObserver (SpanObserver (sh_Option sh)) r1 sp) (\<lambda>_.
       let r2 = r1\<lparr>ActiveSpan := Some sp\<rparr> in
       deferred (Finish sp)
         (case End sh of
            None \<Rightarrow> call_ServeHTTP (sh_Handler sh) w1 r2
          | Some e \<Rightarrow> deferred (call_End w1 r2 sp) (call_ServeHTTP (sh_Handler sh) w1 r2)))))))))))))"

text \<open>
  \<open>HandleHTTP\<close> of this package is declared to return an error and its body is
  \<open>return sh.Serve(sh.Handler, rw, req)\<close>, but \<open>Serve\<close> has no result: the method has no
  value to return and is not embedded. \<open>ServeHTTP\<close> is the same call as a statement.
\<close>

definition ServeHTTP :: "globals \<Rightarrow> ServerHandler \<Rightarrow> writer \<Rightarrow> request \<Rightarrow> unit prog" where
  "ServeHTTP g sh rw req = Serve g sh (sh_Handler sh) rw req"

text \<open>
  \<open>Middleware(sh)\<close> initialises the option of \<open>sh\<close> and returns the function that maps
  \<open>wrappedNext\<close> to a handler; the handler's \<open>ServeHTTP\<close> is the program given here.
\<close>

definition Middleware :: "globals \<Rightarrow> ServerHandler \<Rightarrow> handler option \<Rightarrow> writer \<Rightarrow> request \<Rightarrow> unit prog" where
  "Middleware g sh =
     (let sh1 = sh\<lparr> sh_Option := Init (sh_Option sh) \<rparr>
      in (\<lambda>wrappedNext rw r. Serve g sh1 wrappedNext rw r))"

section \<open>The metrics library, as far as the wrapper uses it\<close>

text \<open>
  \<open>utf8.ValidString\<close> on the bytes of a string: no stray continuation byte, no truncated
  or overlong sequence, no surrogate, nothing above U+10FFFF.
\<close>

definition continuation :: "nat \<Rightarrow> bool" where
  "continuation b \<longleftrightarrow> 128 \<le> b \<and> b \<le> 191"

fun valid_bytes :: "nat list \<Rightarrow> bool" where
  "valid_bytes [] = True"
| "valid_bytes (b # bs) =
     (if b < 128 then valid_bytes bs
      else if 194 \<le> b \<and> b \<le> 223 then
        (case bs of
           c1 # rest \<Rightarrow> continuation c1 \<and> valid_bytes rest
         | _ \<Rightarrow> False)
      else if 224 \<le> b \<and> b \<le> 239 then
        (case bs of
           c1 # c2 # rest \<Rightarrow>
             (if b = 224 then 160 \<le> c1 \<and> c1 \<le> 191
              else if b = 237 then 128 \<le> c1 \<and> c1 \<le> 159
              else continuation c1) \<and>
             continuation c2 \<and> valid_bytes rest
         | _ \<Rightarrow> False)
      else if 240 \<le> b \<and> b \<le> 244 then
        (case bs of
           c1 # c2 # c3 # rest \<Rightarrow>
             (if b = 240 then 144 \<le> c1 \<and> c1 \<le> 191
              else if b = 244 then 128 \<le> c1 \<and> c1 \<le> 143
              else continuation c1) \<and>
             continuation c2 \<and> continuation c3 \<and> valid_bytes rest
         | _ \<Rightarrow> False)
      else False)"

definition valid_utf8 :: "string \<Rightarrow> bool" where
  "valid_utf8 str = valid_bytes (map of_char str)"

text \<open>
  A metric name the registry accepts: a letter, an underscore or a colon, followed by
  letters, digits, underscores and colons.
\<close>

definition name_start :: "char \<Rightarrow> bool" where
  "name_start c \<longleftrightarrow>
     (let n = (of_char c :: nat)
      in (65 \<le> n \<and> n \<le> 90) \<or> (97 \<le> n \<and> n \<le> 122) \<or> n = 95 \<or> n = 58)"

definition name_char :: "char \<Rightarrow> bool" where
  "name_char c \<longleftrightarrow> name_start c \<or> (48 \<le> (of_char c :: nat) \<and> (of_char c :: nat) \<le> 57)"

definition valid_metric_name :: "string \<Rightarrow> bool" where
  "valid_metric_name str =
     (case str of [] \<Rightarrow> False | c # cs \<Rightarrow> name_start c \<and> list_all name_char cs)"

text \<open>\<open>prometheus.BuildFQName\<close>: the non-empty parts joined by underscores.\<close>

definition BuildFQName :: "string \<Rightarrow> string \<Rightarrow> string \<Rightarrow> string" where
  "BuildFQName namespace subsystem name =
     (if name = [] then []
      else if namespace \<noteq> [] \<and> subsystem \<noteq> [] then
        namespace @ ''_'' @ subsystem @ ''_'' @ name
      else if namespace \<noteq> [] then namespace @ ''_'' @ name
      else if subsystem \<noteq> [] then subsystem @ ''_'' @ name
      else name)"

text \<open>
  A \<open>CounterVec\<close> or \<open>HistogramVec\<close>: its fully qualified name, the label names it was made
  for, and the buckets of a histogram (none for a counter).
\<close>

record vec =
  vec_Name :: string
  vec_labels :: "string list"
  vec_buckets :: "real list"

text \<open>
  The factory of \<open>promauto\<close> registers what it makes and panics when the registerer
  refuses: the name is not a metric name, or it is registered there already.
\<close>

definition MustRegister :: "nat option \<Rightarrow> string \<Rightarrow> unit prog" where
  "MustRegister reg fq s =
     (if valid_metric_name fq \<and> (reg, fq) \<notin> set (registered s)
      then (Return (), [], s\<lparr> registered := (reg, fq) # registered s \<rparr>)
      else (Panic RegistrationFailed, [], s))"

definition NewCounterVec :: "nat option \<Rightarrow> string \<Rightarrow> string \<Rightarrow> string \<Rightarrow> string list \<Rightarrow> vec prog" where
  "NewCounterVec reg namespace subsystem name ls =
     bind (emit (Call_NewCounterVec reg namespace subsystem name ls)) (\<lambda>u.
     bind (MustRegister reg (BuildFQName namespace subsystem name)) (\<lambda>u.
     ret \<lparr> vec_Name = BuildFQName namespace subsystem name, vec_labels = ls,
           vec_buckets = [] \<rparr>))"

definition NewHistogramVec :: "nat option \<Rightarrow> string \<Rightarrow> string \<Rightarrow> string \<Rightarrow> real list \<Rightarrow> string list \<Rightarrow> vec prog" where
  "NewHistogramVec reg namespace subsystem name buckets ls =
     bind (emit (Call_NewHistogramVec reg namespace subsystem name buckets ls)) (\<lambda>u.
     bind (MustRegister reg (BuildFQName namespace subsystem name)) (\<lambda>u.
     ret \<lparr> vec_Name = BuildFQName namespace subsystem name, vec_labels = ls,
           vec_buckets = buckets \<rparr>))"

text \<open>
  \<open>With(labels)\<close> of a vector panics unless the map has exactly one value for each label
  name of the vector and every value is valid UTF-8. Calling it on a nil vector panics
  too. A histogram vector makes the histogram of a label map at the first \<open>With\<close> for it,
  and that panics unless the buckets are strictly increasing.
\<close>

definition labels_match :: "string list \<Rightarrow> (string \<times> string) list \<Rightarrow> bool" where
  "labels_match names ls \<longleftrightarrow>
     length ls = length names \<and> list_all (\<lambda>l. map_of ls l \<noteq> None) names"

definition vec_With :: "vec option \<Rightarrow> (string \<times> string) list \<Rightarrow> vec prog" where
  "vec_With v ls =
     (case v of
        None \<Rightarrow> raise NilDereference
      | Some vc \<Rightarrow>
          if labels_match (vec_labels vc) ls then
            (if list_all (\<lambda>kv. valid_utf8 (snd kv)) ls then ret vc
             else raise InvalidLabelValue)
          else raise InconsistentCardinality)"

definition histogram_With :: "vec option \<Rightarrow> (string \<times> string) list \<Rightarrow> vec prog" where
  "histogram_With v ls =
     bind (vec_With v ls) (\<lambda>vc.
     if sorted_wrt (<) (vec_buckets vc) then ret vc else raise BucketsNotIncreasing)"

section \<open>The metrics server wrapper (package prometheus)\<close>

definition DefaultHistogramBuckets :: "real list" where
  "DefaultHistogramBuckets =
     [0.005, 0.01, 0.025, 0.05, 0.075, 0.1, 0.25, 0.5, 0.75, 1, 1.5, 2]"

text \<open>
  \<open>Registerer\<close> names the registry the vectors are registered with (\<open>None\<close> is nil, and
  stands for \<open>prometheus.DefaultRegisterer\<close>). The flags \<open>Path\<close>, \<open>Code\<close> and \<open>Method\<close>
  carry the prefix \<open>opt_\<close>.
\<close>

record prom_Option =
  Registerer :: "nat option"
  Namespace :: string
  Subsystem :: string
  Buckets :: "real list"
  opt_Path :: bool
  opt_Code :: bool
  opt_Method :: bool

record prom_ServerHandler =
  psh_Handler :: "handler option"
  psh_Option :: prom_Option
  once :: bool
  labels :: "string list"
  requestsTotal :: "vec option"
  requestDurations :: "vec option"

definition prom_NewServerHandler :: "handler option \<Rightarrow> prom_ServerHandler" where
  "prom_NewServerHandler h =
     \<lparr> psh_Handler = h,
       psh_Option = \<lparr> Registerer = None, Namespace = [], Subsystem = [], Buckets = [],
                      opt_Path = False, opt_Code = True, opt_Method = True \<rparr>,
       once = False, labels = [], requestsTotal = None, requestDurations = None \<rparr>"

definition prom_WrappedHandler :: "prom_ServerHandler \<Rightarrow> handler option" where
  "prom_WrappedHandler sh = psh_Handler sh"

text \<open>
  \<open>_init2\<close>: the label names in the order method, path, code, then the counter vector,
  then the histogram vector, each stored once the factory has returned it. The result is
  the wrapper as the call leaves it, also when a registration panics, and the run.
\<close>

definition init2 :: "prom_ServerHandler \<Rightarrow> world \<Rightarrow> prom_ServerHandler \<times> unit result \<times> event list \<times> world" where
  "init2 sh s =
     (let opt = psh_Option sh;
          buckets0 = (if length (Buckets opt) = 0 then DefaultHistogramBuckets else Buckets opt);
          buckets = buckets0;
          l0 = [];
          l1 = (if opt_Method opt then l0 @ [''method''] else l0);
          l2 = (if opt_Path opt then l1 @ [''path''] else l1);
          l3 = (if opt_Code opt then l2 @ [''code''] else l2);
          sh1 = sh\<lparr> labels := l3 \<rparr>
      in case NewCounterVec (Registerer opt) (Namespace opt) (Subsystem opt)
                ''http_requests_total'' l3 s of
           (Panic p, es1, s1) \<Rightarrow> (sh1, Panic p, es1, s1)
         | (Return c, es1, s1) \<Rightarrow>
             (let sh2 = sh1\<lparr> requestsTotal := Some c \<rparr>
              in case NewHistogramVec (Registerer opt) (Namespace opt) (Subsystem opt)
                        ''http_request_duration_seconds'' buckets l3 s1 of
                   (Panic p, es2, s2) \<Rightarrow> (sh2, Panic p, es1 @ es2, s2)
                 | (Return hv, es2, s2) \<Rightarrow>
                     (sh2\<lparr> requestDurations := Some hv \<rparr>, Return (), es1 @ es2, s2)))"

text \<open>
  \<open>_init\<close>: \<open>sh.once.Do(sh._init2)\<close>. The \<open>Once\<close> is done after the first call, also when
  \<open>_init2\<close> panicked.
\<close>

definition init :: "prom_ServerHandler \<Rightarrow> world \<Rightarrow> prom_ServerHandler \<times> unit result \<times> event list \<times> world" where
  "init sh s =
     (if once sh then (sh, Return (), [], s)
      else (case init2 sh s of (sh1, res, es, s1) \<Rightarrow> (sh1\<lparr> once := True \<rparr>, res, es, s1)))"

text \<open>\<open>fmt.Sprint\<close> of an int: its decimal digits, with a minus sign when negative.\<close>

fun digits :: "nat \<Rightarrow> string" where
  "digits n =
     (if n < 10 then [''0123456789'' ! n]
      else digits (n div 10) @ [''0123456789'' ! (n mod 10)])"

declare digits.simps [simp del]

definition Sprint :: "int \<Rightarrow> string" where
  "Sprint i = (if i < 0 then CHR ''-'' # digits (nat (- i)) else digits (nat i))"

definition get_world :: "world prog" where
  "get_world s = (Return s, [], s)"

text \<open>The body of the \<open>switch\<close> in \<open>handle\<close>, for the label name \<open>l\<close>.\<close>

definition set_label :: "string \<Rightarrow> int \<Rightarrow> request \<Rightarrow> (string \<times> string) list \<Rightarrow> (string \<times> string) list" where
  "set_label l code r m =
     (if l = ''code'' then AList.update ''code'' (Sprint code) m
      else if l = ''path'' then AList.update ''path'' (Path (URL r)) m
      else if l = ''method'' then AList.update ''method'' (Method r) m
      else m)"

text \<open>
  The loop of \<open>handle\<close>, from the index \<open>len(sh.labels) - 1\<close> down to 0: \<open>label_loop ls code r n m\<close>
  has the indices below \<open>n\<close> left to do.
\<close>

primrec label_loop :: "string list \<Rightarrow> int \<Rightarrow> request \<Rightarrow> nat \<Rightarrow> (string \<times> string) list \<Rightarrow> (string \<times> string) list" where
  "label_loop ls code r 0 m = m"
| "label_loop ls code r (Suc i) m = label_loop ls code r i (set_label (ls ! i) code r m)"

text \<open>
  \<open>handle\<close>, run when \<open>Serve\<close> is left. Its request \<open>r\<close> is the request object as it is
  then. The duration is read after \<open>With\<close> of the histogram vector has returned.
\<close>

definition handle :: "prom_ServerHandler \<Rightarrow> writer \<Rightarrow> request \<Rightarrow> nat \<Rightarrow> unit prog" where
  "handle sh w r start =
     bind get_world (\<lambda>s.
     let code = (if has_StatusCode w then codes s (wobj w) else 200);
         lbls = label_loop (labels sh) code r (length (labels sh)) []
     in
     bind (vec_With (requestsTotal sh) lbls) (\<lambda>c.
     bind (emit (Call_Inc (vec_Name c) lbls)) (\<lambda>_.
     bind (histogram_With (requestDurations sh) lbls) (\<lambda>h.
     bind get_world (\<lambda>s1.
     emit (Call_Observe (vec_Name h) lbls (int (now s1) - int start)))))))"

definition call_HandleHTTP :: "handler \<Rightarrow> (writer \<Rightarrow> request \<Rightarrow> world \<Rightarrow> string option outcome \<times> request \<times> world) \<Rightarrow> writer \<Rightarrow> request \<Rightarrow> string option prog" where
  "call_HandleHTTP hh f w r s =
     (case f w r s of
        (out, r1, s1) \<Rightarrow> (propagate out, [Call_HandleHTTP (hid hh) w r], s1))"

text \<open>
  The type switch of \<open>Serve\<close>: \<open>HandleHTTP\<close> when the handler implements
  \<open>middlewares.Handler\<close>, \<open>ServeHTTP\<close> otherwise, and then the error stays nil.
\<close>

definition dispatch :: "handler option \<Rightarrow> writer \<Rightarrow> request \<Rightarrow> string option prog" where
  "dispatch h w r =
     (case h of
        None \<Rightarrow> bind (call_ServeHTTP h w r) (\<lambda>u. ret None)
      | Some hh \<Rightarrow>
          (case handleHTTP hh of
             Some f \<Rightarrow> call_HandleHTTP hh f w r
           | None \<Rightarrow> bind (call_ServeHTTP h w r) (\<lambda>u. ret None)))"

text \<open>The request object as the delegated call of \<open>Serve\<close> leaves it.\<close>

definition request_after :: "handler option \<Rightarrow> writer \<Rightarrow> request \<Rightarrow> world \<Rightarrow> request" where
  "request_after h w r s =
     (case h of
        None \<Rightarrow> r
      | Some hh \<Rightarrow>
          (case handleHTTP hh of
             Some f \<Rightarrow> fst (snd (f w r s))
           | None \<Rightarrow> fst (snd (serveHTTP hh w r s))))"

text \<open>
  \<open>Serve\<close>: the wrapper after the call, and the run. A panic of \<open>_init\<close> leaves \<open>Serve\<close>
  before anything is deferred. \<open>time.Now()\<close> is read when the \<open>defer\<close> statement is
  executed, before the delegated call; the deferred \<open>handle\<close> holds the pointer to the
  request and reads it after the delegated call.
\<close>

definition prom_Serve :: "prom_ServerHandler \<Rightarrow> handler option \<Rightarrow> writer \<Rightarrow> request \<Rightarrow> world \<Rightarrow> prom_ServerHandler \<times> string option result \<times> event list \<times> world" where
  "prom_Serve sh h w r s =
     (case init sh s of
        (sh1, Panic p, es0, s0) \<Rightarrow> (sh1, Panic p, es0, s0)
      | (sh1, Return u, es0, s0) \<Rightarrow>
          (case deferred (handle sh1 w (request_after h w r s0) (now s0)) (dispatch h w r) s0
           of (res, es, s1) \<Rightarrow> (sh1, res, es0 @ es, s1)))"

definition prom_HandleHTTP :: "prom_ServerHandler \<Rightarrow> writer \<Rightarrow> request \<Rightarrow> world \<Rightarrow> prom_ServerHandler \<times> string option result \<times> event list \<times> world" where
  "prom_HandleHTTP sh rw req s = prom_Serve sh (psh_Handler sh) rw req s"

text \<open>\<open>ServeHTTP\<close> drops the error that \<open>Serve\<close> returns.\<close>

fun discard :: "'a result \<Rightarrow> unit result" where
  "discard (Return x) = Return ()"
| "discard (Panic p) = Panic p"

definition prom_ServeHTTP :: "prom_ServerHandler \<Rightarrow> writer \<Rightarrow> request \<Rightarrow> world \<Rightarrow> prom_ServerHandler \<times> unit result \<times> event list \<times> world" where
  "prom_ServeHTTP sh rw req s =
     (case prom_Serve sh (psh_Handler sh) rw req s of
        (sh1, res, es, s1) \<Rightarrow> (sh1, discard res, es, s1))"

text \<open>
  \<open>Middleware(option)\<close> makes a wrapper with the caller's option if there is one and sets
  it up at once. The handler it makes for \<open>wrappedNext\<close> calls \<open>Serve\<close> with it and drops
  the error: \<open>prom_Middleware_handler\<close> is the \<open>ServeHTTP\<close> of that handler.
\<close>

definition prom_Middleware :: "prom_Option option \<Rightarrow> world \<Rightarrow> prom_ServerHandler \<times> unit result \<times> event list \<times> world" where
  "prom_Middleware option s =
     (let sh0 = prom_NewServerHandler None;
          sh1 = (case option of None \<Rightarrow> sh0 | Some opt \<Rightarrow> sh0\<lparr> psh_Option := opt \<rparr>)
      in init sh1 s)"

definition prom_Middleware_handler :: "prom_ServerHandler \<Rightarrow> handler option \<Rightarrow> writer \<Rightarrow> request \<Rightarrow> world \<Rightarrow> prom_ServerHandler \<times> unit result \<times> event list \<times> world" where
  "prom_Middleware_handler sh wrappedNext rw r s =
     (case prom_Serve sh wrappedNext rw r s of
        (sh1, res, es, s1) \<Rightarrow> (sh1, discard res, es, s1))"

section \<open>Reading a run\<close>

text \<open>The spans started, the spans finished and the delegated calls among the events.\<close>

fun started :: "event list \<Rightarrow> (string \<times> start_opt list \<times> span) list" where
  "started [] = []"
| "started (Call_StartSpan name opts sp # es) = (name, opts, sp) # started es"
| "started (e # es) = started es"

fun finished :: "event list \<Rightarrow> span list" where
  "finished [] = []"
| "finished (Call_Finish sp # es) = sp # finished es"
| "finished (e # es) = finished es"

fun increments :: "event list \<Rightarrow> (string \<times> (string \<times> string) list) list" where
  "increments [] = []"
| "increments (Call_Inc c ls # es) = (c, ls) # increments es"
| "increments (e # es) = increments es"

fun observations :: "event list \<Rightarrow> (string \<times> (string \<times> string) list \<times> int) list" where
  "observations [] = []"
| "observations (Call_Observe h ls d # es) = (h, ls, d) # observations es"
| "observations (e # es) = observations es"

text \<open>The calls of the pre-hook, of a handler's \<open>ServeHTTP\<close> and of the post-hook.\<close>

fun start_calls :: "event list \<Rightarrow> (writer \<times> request) list" where
  "start_calls [] = []"
| "start_calls (Call_Start w r # es) = (w, r) # start_calls es"
| "start_calls (e # es) = start_calls es"

fun served :: "event list \<Rightarrow> (nat \<times> writer \<times> request) list" where
  "served [] = []"
| "served (Call_ServeHTTP h w r # es) = (h, w, r) # served es"
| "served (e # es) = served es"

fun end_calls :: "event list \<Rightarrow> (writer \<times> request \<times> span) list" where
  "end_calls [] = []"
| "end_calls (Call_End w r sp # es) = (w, r, sp) # end_calls es"
| "end_calls (e # es) = end_calls es"

fun extracts :: "event list \<Rightarrow> header list" where
  "extracts [] = []"
| "extracts (Call_Extract h # es) = h # extracts es"
| "extracts (e # es) = extracts es"

text \<open>All five function fields of an option are set, as they are after \<open>Init\<close>.\<close>

definition initialized :: "Option \<Rightarrow> bool" where
  "initialized opt \<longleftrightarrow>
     ComponentNameFunc opt \<noteq> None \<and> URLTagFunc opt \<noteq> None \<and> SpanFilter opt \<noteq> None \<and>
     SpanObserver opt \<noteq> None \<and> OperationNameFunc opt \<noteq> None"

text \<open>The three parts of a run from the world \<open>s\<close>: calls made, result, world left.\<close>

definition events :: "'a prog \<Rightarrow> world \<Rightarrow> event list" where
  "events p s = fst (snd (p s))"

definition result :: "'a prog \<Rightarrow> world \<Rightarrow> 'a result" where
  "result p s = fst (p s)"

definition final :: "'a prog \<Rightarrow> world \<Rightarrow> world" where
  "final p s = snd (snd (p s))"

fun round_trips :: "event list \<Rightarrow> (nat \<times> request) list" where
  "round_trips [] = []"
| "round_trips (Call_RoundTrip t req # es) = (t, req) # round_trips es"
| "round_trips (e # es) = round_trips es"

text \<open>The writer and the request the server wrapper goes on with after the pre-hook.\<close>

definition pre_hook :: "ServerHandler \<Rightarrow> writer \<Rightarrow> request \<Rightarrow> writer \<times> request" where
  "pre_hook sh w r = (case Start sh of None \<Rightarrow> (w, r) | Some st \<Rightarrow> st w r)"

text \<open>The transport the client wrapper delegates to.\<close>

definition wrapped_transport :: "globals \<Rightarrow> RoundTripper \<Rightarrow> transport" where
  "wrapped_transport g rt =
     (case rt_RoundTripper rt of None \<Rightarrow> DefaultTransport g | Some t \<Rightarrow> t)"

section \<open>Reading a run of the metrics wrapper\<close>

definition handler_after :: "prom_ServerHandler \<times> 'a result \<times> event list \<times> world \<Rightarrow> prom_ServerHandler" where
  "handler_after out = fst out"

definition prom_result :: "prom_ServerHandler \<times> 'a result \<times> event list \<times> world \<Rightarrow> 'a result" where
  "prom_result out = fst (snd out)"

definition prom_events :: "prom_ServerHandler \<times> 'a result \<times> event list \<times> world \<Rightarrow> event list" where
  "prom_events out = fst (snd (snd out))"

definition prom_final :: "prom_ServerHandler \<times> 'a result \<times> event list \<times> world \<Rightarrow> world" where
  "prom_final out = snd (snd (snd out))"

text \<open>
  The state a successful \<open>_init2\<close> leaves in the unexported fields: the label names are
  distinct names among method, path and code, and both vectors are there, made for them.
\<close>

definition set_up :: "prom_ServerHandler \<Rightarrow> bool" where
  "set_up sh \<longleftrightarrow>
     distinct (labels sh) \<and> list_all (\<lambda>l. l \<in> set [''method'', ''path'', ''code'']) (labels sh) \<and>
     (case requestsTotal sh of None \<Rightarrow> False | Some v \<Rightarrow> vec_labels v = labels sh) \<and>
     (case requestDurations sh of None \<Rightarrow> False | Some v \<Rightarrow> vec_labels v = labels sh)"

text \<open>
  A wrapper not set up yet can register its two vectors in the world \<open>s\<close>: their names are
  metric names and are not registered with its registerer.
\<close>

definition can_register :: "prom_ServerHandler \<Rightarrow> world \<Rightarrow> bool" where
  "can_register sh s \<longleftrightarrow>
     (let opt = psh_Option sh;
          c = BuildFQName (Namespace opt) (Subsystem opt) ''http_requests_total'';
          h = BuildFQName (Namespace opt) (Subsystem opt) ''http_request_duration_seconds''
      in valid_metric_name c \<and> valid_metric_name h \<and>
         (Registerer opt, c) \<notin> set (registered s) \<and>
         (Registerer opt, h) \<notin> set (registered s))"

text \<open>
  A wrapper whose vectors are there when \<open>handle\<close> runs: set up by an earlier call, or
  about to be set up by this one.
\<close>

definition ready :: "prom_ServerHandler \<Rightarrow> world \<Rightarrow> bool" where
  "ready sh s \<longleftrightarrow> (if once sh then set_up sh else can_register sh s)"

text \<open>The label names and the buckets a call of \<open>Serve\<close> works with.\<close>

definition labels_in_use :: "prom_ServerHandler \<Rightarrow> string list" where
  "labels_in_use sh =
     (if once sh then labels sh
      else (if opt_Method (psh_Option sh) then [''method''] else []) @
           (if opt_Path (psh_Option sh) then [''path''] else []) @
           (if opt_Code (psh_Option sh) then [''code''] else []))"

definition buckets_in_use :: "prom_ServerHandler \<Rightarrow> real list" where
  "buckets_in_use sh =
     (if once sh then (case requestDurations sh of None \<Rightarrow> [] | Some v \<Rightarrow> vec_buckets v)
      else if Buckets (psh_Option sh) = [] then DefaultHistogramBuckets
      else Buckets (psh_Option sh))"

text \<open>The method and the path of a request are valid UTF-8 where they are label values.\<close>

definition values_valid :: "string list \<Rightarrow> request \<Rightarrow> bool" where
  "values_valid ls r \<longleftrightarrow>
     (if ''method'' \<in> set ls then valid_utf8 (Method r) else True) \<and>
     (if ''path'' \<in> set ls then valid_utf8 (Path (URL r)) else True)"

text \<open>The value \<open>handle\<close> gives to the label \<open>k\<close>.\<close>

definition label_value :: "int \<Rightarrow> request \<Rightarrow> string \<Rightarrow> string" where
  "label_value code r k =
     (if k = ''code'' then Sprint code else if k = ''path'' then Path (URL r) else Method r)"

section \<open>Concrete values\<close>

text \<open>
  A tracer that writes a span context into two headers, in unary, and reads it back; a
  span it starts joins the trace of its first reference, or opens trace 100.
\<close>

definition mock_tracer :: tracer where
  "mock_tracer =
     \<lparr> StartSpan = (\<lambda>name opts.
         \<lparr> sp_handle = 1,
           sp_context = SpanContext (case references opts of [] \<Rightarrow> 100 | c # cs \<Rightarrow> trace_id c) 1 \<rparr>),
       Extract = (\<lambda>h.
         case map_of h ''trace-id'' of
           None \<Rightarrow> (None, Some ''span context not found'')
         | Some a \<Rightarrow>
             (case map_of h ''span-id'' of
                None \<Rightarrow> (None, Some ''span context corrupted'')
              | Some b \<Rightarrow> (Some (SpanContext (length a) (length b)), None))),
       Inject = (\<lambda>c h. (''trace-id'', replicate (trace_id c) (CHR ''t'')) #
                       (''span-id'', replicate (span_id c) (CHR ''s'')) # h) \<rparr>"

definition get_widgets :: request where
  "get_widgets =
     \<lparr> Method = ''GET'',
       URL = \<lparr> Path = ''/widgets/42'', String = ''http://example.com/widgets/42'' \<rparr>,
       Header = [], ActiveSpan = None \<rparr>"

definition plain_writer :: writer where
  "plain_writer = \<lparr> wobj = 1, has_StatusCode = False \<rparr>"

definition status_writer :: writer where
  "status_writer = \<lparr> wobj = 2, has_StatusCode = True \<rparr>"

definition world0 :: world where
  "world0 = \<lparr> codes = (\<lambda>w. 0), now = 1000, registered = [] \<rparr>"

text \<open>A plain handler that answers 404 in 5 ns, and one with \<open>HandleHTTP\<close> that fails.\<close>

definition not_found_handler :: handler where
  "not_found_handler =
     HTTPHandler 7
       (\<lambda>w r s. (Returns (), r, s\<lparr> codes := (codes s)(wobj w := 404), now := now s + 5 \<rparr>))
       None"

definition failing_handler :: handler where
  "failing_handler =
     HTTPHandler 8
       (\<lambda>w r s. (Returns (), r, s\<lparr> codes := (codes s)(wobj w := 500) \<rparr>))
       (Some (\<lambda>w r s. (Returns (Some ''boom''), r, s\<lparr> codes := (codes s)(wobj w := 500) \<rparr>)))"

definition refusing_transport :: transport where
  "refusing_transport = HTTPTransport 3 (\<lambda>req s. (Returns (None, Some ''connection refused''), s))"

definition globals0 :: globals where
  "globals0 =
     \<lparr> GlobalTracer = NoopTracer,
       DefaultTransport =
         HTTPTransport 0 (\<lambda>req s. (Returns (Some \<lparr> resp_StatusCode = 200 \<rparr>, None), s)) \<rparr>"

text \<open>An option with a filter and a component name of the user's, the rest unset.\<close>

definition user_option :: Option where
  "user_option =
     \<lparr> Tracer = Some mock_tracer, ComponentName = ''gateway'', ComponentNameFunc = None,
       URLTagFunc = None, SpanFilter = Some (\<lambda>r. Path (URL r) = ''/healthz''),
       OperationNameFunc = None, SpanObserver = None \<rparr>"

definition healthz :: request where
  "healthz =
     \<lparr> Method = ''GET'', URL = \<lparr> Path = ''/healthz'', String = ''/healthz'' \<rparr>,
       Header = [(''accept'', ''*/*'')], ActiveSpan = None \<rparr>"

definition custom_option :: Option where
  "custom_option =
     \<lparr> Tracer = Some mock_tracer, ComponentName = [],
       ComponentNameFunc = Some (\<lambda>r. ''api''),
       URLTagFunc = Some (\<lambda>u. Path u),
       SpanFilter = Some (\<lambda>r. Method r = ''OPTIONS''),
       OperationNameFunc = Some (\<lambda>r. Method r),
       SpanObserver = Some (\<lambda>r sp. ()) \<rparr>"

text \<open>
  A client and a server wrapper of a gateway; the server's pre-hook swaps in a writer that
  reports its status code, its post-hook is set.
\<close>

definition gateway_rt :: RoundTripper where
  "gateway_rt = \<lparr> rt_RoundTripper = Some refusing_transport, rt_Option = Init user_option \<rparr>"

definition gateway_sh :: ServerHandler where
  "gateway_sh =
     \<lparr> sh_Handler = Some not_found_handler, sh_Option = Init user_option,
       Start = Some (\<lambda>w r. (status_writer, r)), End = Some (\<lambda>w r sp. ()) \<rparr>"

text \<open>The request \<open>get_widgets\<close> sent on by a caller whose span context is (7, 3).\<close>

definition traced_widgets :: request where
  "traced_widgets = get_widgets\<lparr> Header := Inject mock_tracer (SpanContext 7 3) [] \<rparr>"

text \<open>The same request inside a caller that has the span 9 of trace 7 active.\<close>

definition child_widgets :: request where
  "child_widgets =
     get_widgets\<lparr> ActiveSpan := Some \<lparr> sp_handle = 9, sp_context = SpanContext 7 3 \<rparr> \<rparr>"


text \<open>A tracer with the error of \<open>Extract\<close> erased.\<close>

definition quiet :: "tracer \<Rightarrow> tracer" where
  "quiet t = t\<lparr> Extract := (\<lambda>h. (fst (Extract t h), None)) \<rparr>"

text \<open>A metrics wrapper as \<open>NewServerHandler\<close> makes it, and one with \<open>HandleHTTP\<close> behind it.\<close>

definition metrics_sh :: prom_ServerHandler where
  "metrics_sh = prom_NewServerHandler (Some not_found_handler)"

definition failing_sh :: prom_ServerHandler where
  "failing_sh = prom_NewServerHandler (Some failing_handler)"

text \<open>
  A metrics wrapper with the path label on, and the request \<open>GET /caf%E9\<close>, whose decoded
  path ends in the byte E9.
\<close>

definition path_sh :: prom_ServerHandler where
  "path_sh =
     (prom_NewServerHandler (Some not_found_handler))
       \<lparr> psh_Option := \<lparr> Registerer = None, Namespace = [], Subsystem = [], Buckets = [],
                          opt_Path = True, opt_Code = True, opt_Method = True \<rparr> \<rparr>"

definition cafe :: request where
  "cafe =
     \<lparr> Method = ''GET'', URL = \<lparr> Path = ''/caf'' @ [CHR 0xE9], String = ''/caf%E9'' \<rparr>,
       Header = [], ActiveSpan = None \<rparr>"

text \<open>A metrics wrapper whose buckets are not increasing.\<close>

definition unsorted_sh :: prom_ServerHandler where
  "unsorted_sh =
     (prom_NewServerHandler (Some failing_handler))
       \<lparr> psh_Option := \<lparr> Registerer = None, Namespace = [], Subsystem = [], Buckets = [2, 1],
                          opt_Path = False, opt_Code = True, opt_Method = True \<rparr> \<rparr>"

text \<open>A handler that rewrites the method of the request it is given and answers 204.\<close>

definition rewriting_handler :: handler where
  "rewriting_handler =
     HTTPHandler 9
       (\<lambda>w r s. (Returns (), r\<lparr> Method := ''HEAD'' \<rparr>,
                 s\<lparr> codes := (codes s)(wobj w := 204), now := now s + 7 \<rparr>))
       None"

section \<open>Running programs\<close>

lemma bind_ret [simp]: "bind (ret x) f = f x"
  by (rule ext) (simp add: bind_def ret_def split: prod.splits)

lemma bind_raise [simp]: "bind (raise p) f = raise p"
  by (rule ext) (simp add: bind_def raise_def)

lemma bind_assoc [simp]: "bind (bind m f) k = bind m (\<lambda>x. bind (f x) k)"
  by (rule ext) (simp add: bind_def split: prod.splits result.splits)

lemma call_Some [simp]: "call (Some f) x = ret (f x)"
  by (simp add: call_def)

lemma call_None [simp]: "call None x = raise NilDereference"
  by (simp add: call_def)

lemma run_raise [simp]:
  "events (raise p) s = []" "result (raise p) s = Panic p" "final (raise p) s = s"
  by (simp_all add: events_def result_def final_def raise_def)

lemma run_ret [simp]:
  "events (ret x) s = []" "result (ret x) s = Return x" "final (ret x) s = s"
  by (simp_all add: events_def result_def final_def ret_def)

lemma run_emit [simp]:
  "events (emit e) s = [e]" "result (emit e) s = Return ()" "final (emit e) s = s"
  by (simp_all add: events_def result_def final_def emit_def)

lemma run_bind_emit [simp]:
  "events (bind (emit e) f) s = e # events (f ()) s"
  "result (bind (emit e) f) s = result (f ()) s"
  "final (bind (emit e) f) s = final (f ()) s"
  by (simp_all add: events_def result_def final_def bind_def emit_def split: prod.splits)

lemma run_deferred_emit [simp]:
  "events (deferred (emit e) body) s = events body s @ [e]"
  "result (deferred (emit e) body) s = result body s"
  "final (deferred (emit e) body) s = final body s"
  by (simp_all add: events_def result_def final_def deferred_def emit_def split: prod.splits)

lemma run_call_ServeHTTP [simp]:
  "events (call_ServeHTTP None w r) s = []"
  "result (call_ServeHTTP None w r) s = Panic NilDereference"
  "final (call_ServeHTTP None w r) s = s"
  "events (call_ServeHTTP (Some hh) w r) s = [Call_ServeHTTP (hid hh) w r]"
  "result (call_ServeHTTP (Some hh) w r) s = propagate (fst (serveHTTP hh w r s))"
  "final (call_ServeHTTP (Some hh) w r) s = snd (snd (serveHTTP hh w r s))"
  by (simp_all add: events_def result_def final_def call_ServeHTTP_def case_prod_beta)

lemma run_call_RoundTrip [simp]:
  "events (call_RoundTrip t req) s = [Call_RoundTrip (tid t) req]"
  "result (call_RoundTrip t req) s = propagate (fst (roundTripper t req s))"
  "final (call_RoundTrip t req) s = snd (roundTripper t req s)"
  by (simp_all add: events_def result_def final_def call_RoundTrip_def case_prod_beta)

lemma run_roundTrip [simp]:
  "events (roundTrip g rt req) s = [Call_RoundTrip (tid (wrapped_transport g rt)) req]"
  "result (roundTrip g rt req) s = propagate (fst (roundTripper (wrapped_transport g rt) req s))"
  "final (roundTrip g rt req) s = snd (roundTripper (wrapped_transport g rt) req s)"
  by (simp_all add: roundTrip_def wrapped_transport_def split: option.splits)

lemma finished_append [simp]: "finished (xs @ ys) = finished xs @ finished ys"
  by (induction xs rule: finished.induct) simp_all

lemma started_append [simp]: "started (xs @ ys) = started xs @ started ys"
  by (induction xs rule: started.induct) simp_all

lemma round_trips_append [simp]: "round_trips (xs @ ys) = round_trips xs @ round_trips ys"
  by (induction xs rule: round_trips.induct) simp_all

lemma start_calls_append [simp]: "start_calls (xs @ ys) = start_calls xs @ start_calls ys"
  by (induction xs rule: start_calls.induct) simp_all

lemma served_append [simp]: "served (xs @ ys) = served xs @ served ys"
  by (induction xs rule: served.induct) simp_all

lemma end_calls_append [simp]: "end_calls (xs @ ys) = end_calls xs @ end_calls ys"
  by (induction xs rule: end_calls.induct) simp_all

lemma extracts_append [simp]: "extracts (xs @ ys) = extracts xs @ extracts ys"
  by (induction xs rule: extracts.induct) simp_all

lemmas tracing_calls =
  call_Start_def tracer_Extract_def tracer_StartSpan_def tracer_Inject_def SetTag_def
  GetComponentName_def call_SpanObserver_def Finish_def call_End_def

text \<open>The calls of the server wrapper on a request that is not filtered.\<close>

lemma Serve_traced_events:
  assumes "SpanFilter (sh_Option sh) = Some sf" and "\<not> sf r"
    and "OperationNameFunc (sh_Option sh) = Some onf"
    and "URLTagFunc (sh_Option sh) = Some utf"
    and "ComponentNameFunc (sh_Option sh) = Some cnf"
    and "SpanObserver (sh_Option sh) = Some ob"
    and "w1 = fst (pre_hook sh w r)" and "r1 = snd (pre_hook sh w r)"
    and "tr = GetTracer g (sh_Option sh)"
    and "sc = fst (Extract tr (Header r1))"
    and "sp = StartSpan tr (onf r1) [RPCServerOption sc]"
    and "r2 = r1\<lparr>ActiveSpan := Some sp\<rparr>"
  shows "events (Serve g sh h w r) s =
     (case Start sh of None \<Rightarrow> [] | Some st \<Rightarrow> [Call_Start w r]) @
     [Call_Extract (Header r1), Call_StartSpan (onf r1) [RPCServerOption sc] sp,
      Call_SetTag sp ''http.method'' (Method r1),
      Call_SetTag sp ''component''
        (if ComponentName (sh_Option sh) = [] then cnf r1 else ComponentName (sh_Option sh)),
      Call_SetTag sp ''http.url'' (utf (URL r1)),
      Call_SpanObserver r1 sp] @
     (case sh_Handler sh of None \<Rightarrow> [] | Some hh \<Rightarrow> [Call_ServeHTTP (hid hh) w1 r2]) @
     (case End sh of None \<Rightarrow> [] | Some e \<Rightarrow> [Call_End w1 r2 sp]) @
     [Call_Finish sp]"
  using assms
  by (cases "Start sh"; cases "End sh"; cases "sh_Handler sh")
     (simp_all add: Serve_def pre_hook_def tracing_calls case_prod_beta Let_def)


text \<open>The calls of the client wrapper on a request that is not filtered.\<close>

lemma RoundTrip_traced_events:
  assumes "SpanFilter (rt_Option rt) = Some sf" and "\<not> sf req"
    and "OperationNameFunc (rt_Option rt) = Some onf"
    and "URLTagFunc (rt_Option rt) = Some utf"
    and "ComponentNameFunc (rt_Option rt) = Some cnf"
    and "SpanObserver (rt_Option rt) = Some ob"
    and "tr = GetTracer g (rt_Option rt)"
    and "opts = (case ActiveSpan req of None \<Rightarrow> [SpanKindRPCClient]
                 | Some pspan \<Rightarrow> [ChildOf (sp_context pspan)])"
    and "sp = StartSpan tr (onf req) opts"
    and "req1 = req\<lparr>Header := Inject tr (sp_context sp) (Header req), ActiveSpan := Some sp\<rparr>"
  shows "events (RoundTrip g rt req) s =
     [Call_StartSpan (onf req) opts sp,
      Call_SetTag sp ''http.url'' (utf (URL req)),
      Call_SetTag sp ''component''
        (if ComponentName (rt_Option rt) = [] then cnf req else ComponentName (rt_Option rt)),
      Call_SetTag sp ''http.method'' (Method req),
      Call_SpanObserver req sp,
      Call_Inject (sp_context sp) (Header req),
      Call_RoundTrip (tid (wrapped_transport g rt)) req1,
      Call_Finish sp]"
    and "result (RoundTrip g rt req) s = propagate (fst (roundTripper (wrapped_transport g rt) req1 s))"
    and "final (RoundTrip g rt req) s = snd (roundTripper (wrapped_transport g rt) req1 s)"
  using assms
  by (simp_all add: RoundTrip_def tracing_calls Let_def)


lemma run_bind_const [simp]:
  "events (bind m (\<lambda>u. ret x)) s = events m s"
  "final (bind m (\<lambda>u. ret x)) s = final m s"
  "result (bind m (\<lambda>u. ret x)) s = (case result m s of Return u \<Rightarrow> Return x | Panic p \<Rightarrow> Panic p)"
  by (simp_all add: events_def final_def result_def bind_def ret_def split: prod.splits result.splits)

section \<open>The option after Init\<close>

lemma Init_fields:
  "Tracer (Init opt) = Tracer opt"
  "ComponentName (Init opt) = ComponentName opt"
  "ComponentNameFunc (Init opt) =
     (case ComponentNameFunc opt of None \<Rightarrow> Some default_ComponentNameFunc | Some f \<Rightarrow> Some f)"
  "URLTagFunc (Init opt) =
     (case URLTagFunc opt of None \<Rightarrow> Some default_URLTagFunc | Some f \<Rightarrow> Some f)"
  "SpanFilter (Init opt) =
     (case SpanFilter opt of None \<Rightarrow> Some default_SpanFilter | Some f \<Rightarrow> Some f)"
  "SpanObserver (Init opt) =
     (case SpanObserver opt of None \<Rightarrow> Some default_SpanObserver | Some f \<Rightarrow> Some f)"
  "OperationNameFunc (Init opt) =
     (case OperationNameFunc opt of None \<Rightarrow> Some default_OperationNameFunc | Some f \<Rightarrow> Some f)"
  by (simp_all add: Init_def Let_def split: option.splits)

lemma Init_more: "Option.more (Init opt) = Option.more opt"
  by (simp add: Init_def Let_def)

lemma initializedE:
  assumes "initialized opt"
  obtains cnf utf sf ob onf where
    "ComponentNameFunc opt = Some cnf" "URLTagFunc opt = Some utf" "SpanFilter opt = Some sf"
    "SpanObserver opt = Some ob" "OperationNameFunc opt = Some onf"
  using assms by (auto simp: initialized_def)

lemma initialized_Init [simp]: "initialized (Init opt)"
  by (simp add: initialized_def Init_fields split: option.splits)

lemma GetTracer_Some [simp]: "GetTracer g (opt\<lparr> Tracer := Some t \<rparr>) = t"
  by (simp add: GetTracer_def)

lemma GetComponentName_Tracer [simp]:
  "GetComponentName (opt\<lparr> Tracer := t \<rparr>) = GetComponentName opt"
  by (intro ext) (simp add: GetComponentName_def)

lemma quiet_fields [simp]:
  "StartSpan (quiet t) = StartSpan t" "Inject (quiet t) = Inject t"
  "Extract (quiet t) h = (fst (Extract t h), None)"
  by (simp_all add: quiet_def)


lemmas gateway_defs =
  gateway_rt_def gateway_sh_def user_option_def Init_fields get_widgets_def mock_tracer_def
  GetTracer_def wrapped_transport_def refusing_transport_def not_found_handler_def
  pre_hook_def

section \<open>The label loop\<close>

lemma map_of_set_label:
  "map_of (set_label l code r m) k =
     (if k = l \<and> l \<in> {''method'', ''path'', ''code''} then Some (label_value code r k)
      else map_of m k)"
  by (auto simp: set_label_def label_value_def update_conv')

lemma distinct_set_label:
  "distinct (map fst m) \<Longrightarrow> distinct (map fst (set_label l code r m))"
  by (simp add: set_label_def distinct_update)

lemma map_of_label_loop:
  "n \<le> length ls \<Longrightarrow>
   map_of (label_loop ls code r n m) k =
     (if k \<in> set (take n ls) \<and> k \<in> {''method'', ''path'', ''code''}
      then Some (label_value code r k) else map_of m k)"
proof (induction n arbitrary: m)
  case 0
  then show ?case by simp
next
  case (Suc n)
  then have "n < length ls" by simp
  then have t: "take (Suc n) ls = take n ls @ [ls ! n]"
    by (rule take_Suc_conv_app_nth)
  from Suc show ?case
    by (auto simp: t map_of_set_label)
qed

lemma distinct_label_loop:
  "distinct (map fst m) \<Longrightarrow> distinct (map fst (label_loop ls code r n m))"
  by (induction n arbitrary: m) (simp_all add: distinct_set_label)

lemma keys_label_loop:
  assumes "n \<le> length ls"
  shows "fst ` set (label_loop ls code r n m) =
     fst ` set m \<union> (set (take n ls) \<inter> {''method'', ''path'', ''code''})"
proof -
  have "dom (map_of (label_loop ls code r n m)) =
      dom (map_of m) \<union> (set (take n ls) \<inter> {''method'', ''path'', ''code''})"
    by (auto simp: map_of_label_loop [OF assms] dom_def split: if_splits)
  then show ?thesis
    by (simp add: dom_map_of_conv_image_fst)
qed

text \<open>The label map built by \<open>handle\<close> for a wrapper that is set up.\<close>

lemma label_loop_set_up:
  assumes "distinct ls" and "set ls \<subseteq> {''method'', ''path'', ''code''}"
    and m_def: "m = label_loop ls code r (length ls) []"
  shows "fst ` set m = set ls" and "distinct (map fst m)" and "length m = length ls"
    and "k \<in> set ls \<Longrightarrow> map_of m k = Some (label_value code r k)"
proof -
  show k: "fst ` set m = set ls"
    using assms(2) by (auto simp: m_def keys_label_loop)
  show d: "distinct (map fst m)"
    by (simp add: m_def distinct_label_loop)
  have "length m = length (map fst m)"
    by simp
  also have "\<dots> = card (set (map fst m))"
    using d by (rule distinct_card [symmetric])
  also have "\<dots> = length ls"
    using assms(1) by (simp add: k distinct_card)
  finally show "length m = length ls" .
  show "map_of m k = Some (label_value code r k)" if "k \<in> set ls"
    using that assms(2) by (auto simp: m_def map_of_label_loop)
qed


section \<open>The metrics library\<close>

lemma valid_bytes_ascii: "list_all (\<lambda>b. b < 128) bs \<Longrightarrow> valid_bytes bs"
  by (induction bs) simp_all

lemma digit_ascii:
  assumes "k < 10"
  shows "(of_char (''0123456789'' ! k) :: nat) < 128"
proof -
  have "list_all (\<lambda>c. (of_char c :: nat) < 128) ''0123456789''"
    by simp
  then have "\<forall>n < length ''0123456789''. (of_char (''0123456789'' ! n) :: nat) < 128"
    by (simp only: list_all_length)
  moreover have "k < length ''0123456789''"
    using assms by simp
  ultimately show ?thesis
    by blast
qed

lemma digits_ascii: "list_all (\<lambda>c. (of_char c :: nat) < 128) (digits n)"
proof (induction n rule: digits.induct)
  case (1 n)
  show ?case
  proof (cases "n < 10")
    case True
    then show ?thesis
      using digit_ascii [of n] by (subst digits.simps) simp
  next
    case False
    then show ?thesis
      using 1 digit_ascii [of "n mod 10"] by (subst digits.simps) simp
  qed
qed

lemma valid_utf8_Sprint: "valid_utf8 (Sprint i)"
proof -
  have "list_all (\<lambda>c. (of_char c :: nat) < 128) (Sprint i)"
    using digits_ascii [of "nat i"] digits_ascii [of "nat (- i)"]
    by (simp add: Sprint_def)
  then have "list_all (\<lambda>b. b < 128) (map of_char (Sprint i) :: nat list)"
    by (simp add: list_all_iff)
  then show ?thesis
    unfolding valid_utf8_def by (rule valid_bytes_ascii)
qed

lemma fq_names_differ:
  "BuildFQName ns sub ''http_requests_total'' \<noteq> BuildFQName ns sub ''http_request_duration_seconds''"
  by (simp add: BuildFQName_def)

lemma NewCounterVec_run:
  "NewCounterVec reg ns sub name ls s =
     (if valid_metric_name (BuildFQName ns sub name) \<and> (reg, BuildFQName ns sub name) \<notin> set (registered s)
      then (Return \<lparr> vec_Name = BuildFQName ns sub name, vec_labels = ls, vec_buckets = [] \<rparr>,
            [Call_NewCounterVec reg ns sub name ls],
            s\<lparr> registered := (reg, BuildFQName ns sub name) # registered s \<rparr>)
      else (Panic RegistrationFailed, [Call_NewCounterVec reg ns sub name ls], s))"
  by (simp add: NewCounterVec_def bind_def emit_def MustRegister_def ret_def)

lemma NewHistogramVec_run:
  "NewHistogramVec reg ns sub name bk ls s =
     (if valid_metric_name (BuildFQName ns sub name) \<and> (reg, BuildFQName ns sub name) \<notin> set (registered s)
      then (Return \<lparr> vec_Name = BuildFQName ns sub name, vec_labels = ls, vec_buckets = bk \<rparr>,
            [Call_NewHistogramVec reg ns sub name bk ls],
            s\<lparr> registered := (reg, BuildFQName ns sub name) # registered s \<rparr>)
      else (Panic RegistrationFailed, [Call_NewHistogramVec reg ns sub name bk ls], s))"
  by (simp add: NewHistogramVec_def bind_def emit_def MustRegister_def ret_def)

section \<open>Running the metrics wrapper\<close>

lemma increments_append [simp]: "increments (xs @ ys) = increments xs @ increments ys"
  by (induction xs rule: increments.induct) simp_all

lemma observations_append [simp]: "observations (xs @ ys) = observations xs @ observations ys"
  by (induction xs rule: observations.induct) simp_all

lemma bind_get_world: "bind get_world f s = f s s"
  by (simp add: bind_def get_world_def split: prod.splits)

lemma run_deferred:
  assumes "d (final body s) = (Return u, es, s2)"
  shows "deferred d body s = (result body s, events body s @ es, s2)"
  using assms by (simp add: deferred_def events_def result_def final_def case_prod_beta)

lemma run_deferred_panic:
  assumes "d (final body s) = (Panic p, es, s2)"
  shows "deferred d body s = (Panic p, events body s @ es, s2)"
  using assms by (simp add: deferred_def events_def result_def final_def case_prod_beta)

lemma run_call_HandleHTTP [simp]:
  "events (call_HandleHTTP hh f w r) s = [Call_HandleHTTP (hid hh) w r]"
  "result (call_HandleHTTP hh f w r) s = propagate (fst (f w r s))"
  "final (call_HandleHTTP hh f w r) s = snd (snd (f w r s))"
  by (simp_all add: events_def result_def final_def call_HandleHTTP_def case_prod_beta)

lemma dispatch_no_metrics [simp]:
  "increments (events (dispatch h w r) s) = []"
  "observations (events (dispatch h w r) s) = []"
  by (simp_all add: dispatch_def split: option.splits)

lemma result_dispatch:
  "result (dispatch h w r) s =
     (case h of
        None \<Rightarrow> Panic NilDereference
      | Some hh \<Rightarrow>
          (case handleHTTP hh of
             Some f \<Rightarrow> propagate (fst (f w r s))
           | None \<Rightarrow>
               (case propagate (fst (serveHTTP hh w r s)) of
                  Return u \<Rightarrow> Return None
                | Panic p \<Rightarrow> Panic p)))"
  by (simp add: dispatch_def split: option.splits)

lemma set_up_subset: "set_up sh \<Longrightarrow> set (labels sh) \<subseteq> {''method'', ''path'', ''code''}"
  by (auto simp: set_up_def list_all_iff)

text \<open>What \<open>_init\<close> does for a wrapper that is ready.\<close>

lemma init_ready_all:
  assumes "ready sh s"
  shows "prom_result (init sh s) = Return () \<and>
     set_up (handler_after (init sh s)) \<and>
     once (handler_after (init sh s)) \<and>
     labels (handler_after (init sh s)) = labels_in_use sh \<and>
     (\<exists>v. requestDurations (handler_after (init sh s)) = Some v \<and> vec_buckets v = buckets_in_use sh) \<and>
     increments (prom_events (init sh s)) = [] \<and>
     observations (prom_events (init sh s)) = []"
proof (cases "once sh")
  case True
  with assms have "set_up sh" by (simp add: ready_def)
  with True show ?thesis
    by (auto simp: init_def prom_result_def handler_after_def prom_events_def labels_in_use_def
        buckets_in_use_def set_up_def split: option.splits)
next
  case False
  with assms have c: "can_register sh s" by (simp add: ready_def)
  note d = fq_names_differ [of "Namespace (psh_Option sh)" "Subsystem (psh_Option sh)"]
  from False c d show ?thesis
    by (simp add: init_def init2_def Let_def NewCounterVec_run NewHistogramVec_run
        can_register_def prom_result_def handler_after_def prom_events_def labels_in_use_def
        buckets_in_use_def set_up_def)
qed

lemma init_ready:
  assumes "ready sh s"
  shows "prom_result (init sh s) = Return ()"
    and "set_up (handler_after (init sh s))"
    and "once (handler_after (init sh s))"
    and "labels (handler_after (init sh s)) = labels_in_use sh"
    and "\<exists>v. requestDurations (handler_after (init sh s)) = Some v \<and> vec_buckets v = buckets_in_use sh"
    and "increments (prom_events (init sh s)) = []"
    and "observations (prom_events (init sh s)) = []"
  using init_ready_all [OF assms] by blast+

lemma init_shape:
  assumes "ready sh s"
  shows "init sh s =
     (handler_after (init sh s), Return (), prom_events (init sh s), prom_final (init sh s))"
  using init_ready(1) [OF assms]
  by (simp add: prom_result_def handler_after_def prom_events_def prom_final_def prod_eq_iff)

text \<open>The label values \<open>handle\<close> builds are valid when the method and the path are.\<close>

lemma label_values_valid:
  assumes "distinct ls" and "set ls \<subseteq> {''method'', ''path'', ''code''}"
    and "values_valid ls r"
    and "m = label_loop ls code r (length ls) []"
  shows "list_all (\<lambda>kv. valid_utf8 (snd kv)) m"
proof -
  note l = label_loop_set_up [OF assms(1,2,4)]
  have "valid_utf8 x" if "(k, x) \<in> set m" for k x
  proof -
    from that l(2) have "map_of m k = Some x" by simp
    moreover from that have "k \<in> set ls"
      using l(1) by force
    ultimately have x: "x = label_value code r k"
      using l(4) by simp
    from \<open>k \<in> set ls\<close> assms(2) have "k = ''method'' \<or> k = ''path'' \<or> k = ''code''"
      by auto
    with x \<open>k \<in> set ls\<close> assms(3) show ?thesis
      by (auto simp: label_value_def values_valid_def valid_utf8_Sprint split: if_splits)
  qed
  then show ?thesis
    by (auto simp: list_all_iff)
qed

text \<open>What \<open>handle\<close> does for a wrapper that is set up.\<close>

lemma run_handle:
  assumes "set_up sh"
    and "requestsTotal sh = Some cv" and "requestDurations sh = Some hv"
    and "sorted_wrt (<) (vec_buckets hv)"
    and "values_valid (labels sh) r"
    and "code = (if has_StatusCode w then codes s (wobj w) else 200)"
    and "lbls = label_loop (labels sh) code r (length (labels sh)) []"
  shows "handle sh w r start s =
     (Return (),
      [Call_Inc (vec_Name cv) lbls,
       Call_Observe (vec_Name hv) lbls (int (now s) - int start)],
      s)"
proof -
  from assms(1,2,3) have v: "vec_labels cv = labels sh" "vec_labels hv = labels sh"
    by (simp_all add: set_up_def)
  from assms(1) have d: "distinct (labels sh)"
    by (simp add: set_up_def)
  note l = label_loop_set_up [OF d set_up_subset [OF assms(1)] assms(7)]
  note ok = label_values_valid [OF d set_up_subset [OF assms(1)] assms(5,7)]
  have m: "labels_match (labels sh) lbls"
    using l(3,4) by (simp add: labels_match_def list_all_iff)
  have w1: "vec_With (requestsTotal sh) lbls = ret cv"
    and w2: "histogram_With (requestDurations sh) lbls = ret hv"
    using m ok assms(4) by (simp_all add: vec_With_def histogram_With_def assms(2,3) v)
  have "handle sh w r start s =
      bind (vec_With (requestsTotal sh) lbls) (\<lambda>c.
      bind (emit (Call_Inc (vec_Name c) lbls)) (\<lambda>_.
      bind (histogram_With (requestDurations sh) lbls) (\<lambda>h.
      bind get_world (\<lambda>s1.
      emit (Call_Observe (vec_Name h) lbls (int (now s1) - int start)))))) s"
    by (simp add: handle_def bind_get_world Let_def assms(6,7))
  also have "\<dots> =
     (Return (),
      [Call_Inc (vec_Name cv) lbls,
       Call_Observe (vec_Name hv) lbls (int (now s) - int start)],
      s)"
    by (simp add: w1 w2) (simp add: bind_def emit_def get_world_def)
  finally show ?thesis .
qed

lemma prom_Serve_run:
  assumes "ready sh s" and "sorted_wrt (<) (buckets_in_use sh)"
    and "s0 = prom_final (init sh s)"
    and "sh1 = handler_after (init sh s)"
    and "values_valid (labels_in_use sh) (request_after h w r s0)"
    and "s1 = final (dispatch h w r) s0"
    and "code = (if has_StatusCode w then codes s1 (wobj w) else 200)"
    and "lbls = label_loop (labels sh1) code (request_after h w r s0) (length (labels sh1)) []"
  shows "\<exists>cv hv. requestsTotal sh1 = Some cv \<and> requestDurations sh1 = Some hv \<and>
     prom_Serve sh h w r s =
     (sh1, result (dispatch h w r) s0,
      prom_events (init sh s) @ events (dispatch h w r) s0 @
        [Call_Inc (vec_Name cv) lbls,
         Call_Observe (vec_Name hv) lbls (int (now s1) - int (now s0))],
      s1)"
proof -
  note i = init_ready [OF assms(1)]
  from i(2) obtain cv where cv: "requestsTotal sh1 = Some cv"
    by (auto simp: set_up_def assms(4) split: option.splits)
  from i(5) obtain hv where hv: "requestDurations sh1 = Some hv" "vec_buckets hv = buckets_in_use sh"
    by (auto simp: assms(4))
  have su: "set_up sh1"
    using i(2) by (simp add: assms(4))
  have vv: "values_valid (labels sh1) (request_after h w r s0)"
    using assms(5) i(4) by (simp add: assms(4))
  have so: "sorted_wrt (<) (vec_buckets hv)"
    using assms(2) hv(2) by simp
  have "handle sh1 w (request_after h w r s0) (now s0) s1 =
     (Return (),
      [Call_Inc (vec_Name cv) lbls,
       Call_Observe (vec_Name hv) lbls (int (now s1) - int (now s0))],
      s1)"
    using su cv hv(1) so vv assms(7,8) by (rule run_handle)
  then have "deferred (handle sh1 w (request_after h w r s0) (now s0)) (dispatch h w r) s0 =
     (result (dispatch h w r) s0,
      events (dispatch h w r) s0 @
        [Call_Inc (vec_Name cv) lbls,
         Call_Observe (vec_Name hv) lbls (int (now s1) - int (now s0))],
      s1)"
    unfolding assms(6) by (rule run_deferred)
  then have "prom_Serve sh h w r s =
     (sh1, result (dispatch h w r) s0,
      prom_events (init sh s) @ events (dispatch h w r) s0 @
        [Call_Inc (vec_Name cv) lbls,
         Call_Observe (vec_Name hv) lbls (int (now s1) - int (now s0))],
      s1)"
    by (subst prom_Serve_def, subst init_shape [OF assms(1)])
       (simp add: assms(3,4) [symmetric])
  with cv hv(1) show ?thesis by blast
qed

section \<open>What the constructors provide\<close>

text \<open>
  The hypothesis on the option holds for every wrapper made by the constructors. A new
  metrics wrapper is ready where its two names are free, and a wrapper that was ready
  stays ready, with the same labels and buckets, after \<open>Serve\<close>.
\<close>

lemma NewRoundTripper_initialized: "initialized (rt_Option (NewRoundTripper t))"
  by (simp add: NewRoundTripper_def Let_def)

lemma NewServerHandler_initialized: "initialized (sh_Option (NewServerHandler h))"
  by (simp add: NewServerHandler_def Let_def)

lemma prom_NewServerHandler_ready:
  assumes "(None, ''http_requests_total'') \<notin> set (registered s)"
    and "(None, ''http_request_duration_seconds'') \<notin> set (registered s)"
  shows "ready (prom_NewServerHandler h) s"
  using assms
  by (simp add: ready_def can_register_def prom_NewServerHandler_def BuildFQName_def
      valid_metric_name_def name_start_def name_char_def)

lemma handler_after_prom_Serve:
  "handler_after (prom_Serve sh h w r s) = handler_after (init sh s)"
  by (simp add: prom_Serve_def handler_after_def split: prod.splits result.splits)

lemma prom_Serve_stays_ready:
  assumes "ready sh s"
  shows "ready (handler_after (prom_Serve sh h w r s)) s'"
    and "labels_in_use (handler_after (prom_Serve sh h w r s)) = labels_in_use sh"
    and "buckets_in_use (handler_after (prom_Serve sh h w r s)) = buckets_in_use sh"
  using init_ready(2,3,4,5) [OF assms]
  by (auto simp: handler_after_prom_Serve ready_def labels_in_use_def buckets_in_use_def)

text \<open>
  A wrapper not set up yet whose counter name is taken: \<open>_init2\<close> panics in the first
  registration, \<open>Serve\<close> is left before the delegated call, and the \<open>Once\<close> is done while
  the vectors are the ones the wrapper had.
\<close>

lemma prom_Serve_registration_refused:
  assumes "\<not> once sh"
    and "(Registerer (psh_Option sh),
          BuildFQName (Namespace (psh_Option sh)) (Subsystem (psh_Option sh))
            ''http_requests_total'') \<in> set (registered s)"
  shows "prom_result (prom_Serve sh h w r s) = Panic RegistrationFailed"
    and "prom_events (prom_Serve sh h w r s) =
      [Call_NewCounterVec (Registerer (psh_Option sh)) (Namespace (psh_Option sh))
         (Subsystem (psh_Option sh)) ''http_requests_total'' (labels_in_use sh)]"
    and "prom_final (prom_Serve sh h w r s) = s"
    and "once (handler_after (prom_Serve sh h w r s))"
    and "requestsTotal (handler_after (prom_Serve sh h w r s)) = requestsTotal sh"
    and "requestDurations (handler_after (prom_Serve sh h w r s)) = requestDurations sh"
  using assms
  by (simp_all add: prom_Serve_def init_def init2_def Let_def NewCounterVec_run
      prom_result_def prom_events_def prom_final_def handler_after_def labels_in_use_def)

lemmas metrics_run_defs =
  prom_Serve_def init_def init2_def Let_def NewCounterVec_run NewHistogramVec_run
  BuildFQName_def valid_metric_name_def name_start_def name_char_def
  prom_NewServerHandler_def deferred_def dispatch_def call_ServeHTTP_def call_HandleHTTP_def
  bind_def ret_def raise_def emit_def get_world_def handle_def vec_With_def histogram_With_def
  labels_match_def set_label_def request_after_def
  prom_events_def prom_result_def prom_final_def handler_after_def

section \<open>Claims\<close>

text \<open>
  C8. The configuration initialiser is idempotent: calling \<open>Init\<close> twice leaves every field
  as calling it once does, the tracer and the component name are never touched, and a
  function field the user supplied before the first call is not overwritten by a default.
\<close>

theorem Init_idempotent:
  "Init (Init opt) = Init opt \<and>
   Tracer (Init opt) = Tracer opt \<and> ComponentName (Init opt) = ComponentName opt \<and>
   (ComponentNameFunc opt \<noteq> None \<longrightarrow> ComponentNameFunc (Init opt) = ComponentNameFunc opt) \<and>
   (URLTagFunc opt \<noteq> None \<longrightarrow> URLTagFunc (Init opt) = URLTagFunc opt) \<and>
   (SpanFilter opt \<noteq> None \<longrightarrow> SpanFilter (Init opt) = SpanFilter opt) \<and>
   (SpanObserver opt \<noteq> None \<longrightarrow> SpanObserver (Init opt) = SpanObserver opt) \<and>
   (OperationNameFunc opt \<noteq> None \<longrightarrow> OperationNameFunc (Init opt) = OperationNameFunc opt)"
proof -
  have "Init (Init opt) = Init opt"
    by (rule Option.equality) (simp_all add: Init_fields Init_more split: option.splits)
  then show ?thesis
    by (auto simp: Init_fields)
qed

theorem Init_idempotent_witness:
  "ComponentNameFunc custom_option \<noteq> None \<and> URLTagFunc custom_option \<noteq> None \<and>
   SpanFilter custom_option \<noteq> None \<and> SpanObserver custom_option \<noteq> None \<and>
   OperationNameFunc custom_option \<noteq> None \<and>
   Init (Init custom_option) = Init custom_option \<and>
   ComponentNameFunc (Init custom_option) = Some (\<lambda>r. ''api'') \<and>
   URLTagFunc (Init custom_option) = Some (\<lambda>u. Path u) \<and>
   SpanFilter (Init custom_option) = Some (\<lambda>r. Method r = ''OPTIONS'') \<and>
   SpanObserver (Init custom_option) = SpanObserver custom_option \<and>
   OperationNameFunc (Init custom_option) = Some (\<lambda>r. Method r)"
  using Init_idempotent [of custom_option] by (simp add: custom_option_def)

text \<open>
  C10. The tracing \<open>Serve(h, w, r)\<close> never uses its handler argument: with any two handlers
  it is the same program, which delegates to the stored \<open>sh.Handler\<close>; so the handler built
  by \<open>Middleware\<close> does not depend on the \<open>wrappedNext\<close> it was composed with.
\<close>

theorem Serve_ignores_handler_argument:
  "Serve g sh h1 w r = Serve g sh h2 w r \<and>
   Middleware g sh wrappedNext1 = Middleware g sh wrappedNext2"
proof
  show "Serve g sh h1 w r = Serve g sh h2 w r"
    by (simp add: Serve_def)
  have "Serve g sh' a = Serve g sh' b" for sh' a b
    by (intro ext) (simp add: Serve_def)
  then show "Middleware g sh wrappedNext1 = Middleware g sh wrappedNext2"
    unfolding Middleware_def Let_def by simp
qed

text \<open>
  C2. When the filter predicate returns true for a request, the client wrapper is the bare
  call of the wrapped (or default) transport with the same request, and the server wrapper
  is the bare call of the stored handler with the same writer and request: the delegated
  call is the only call made, so no span is started, no header injected and no context
  attached.
\<close>

theorem filtered_request_bypasses_tracing:
  assumes "SpanFilter (rt_Option rt) = Some cf" and "cf req"
    and "SpanFilter (sh_Option sh) = Some sf" and "sf r"
  shows "RoundTrip g rt req = roundTrip g rt req \<and>
     events (RoundTrip g rt req) s = [Call_RoundTrip (tid (wrapped_transport g rt)) req] \<and>
     Serve g sh h w r = call_ServeHTTP (sh_Handler sh) w r \<and>
     events (Serve g sh h w r) s =
       (case sh_Handler sh of None \<Rightarrow> [] | Some hh \<Rightarrow> [Call_ServeHTTP (hid hh) w r])"
  using assms by (simp add: RoundTrip_def Serve_def split: option.splits)

theorem filtered_request_bypasses_tracing_witness:
  "SpanFilter (rt_Option gateway_rt) = Some (\<lambda>r. Path (URL r) = ''/healthz'') \<and>
   SpanFilter (sh_Option gateway_sh) = Some (\<lambda>r. Path (URL r) = ''/healthz'') \<and>
   Path (URL healthz) = ''/healthz'' \<and>
   events (RoundTrip globals0 gateway_rt healthz) world0 = [Call_RoundTrip 3 healthz] \<and>
   events (Serve globals0 gateway_sh None plain_writer healthz) world0 =
     [Call_ServeHTTP 7 plain_writer healthz]"
  using filtered_request_bypasses_tracing [of gateway_rt "\<lambda>r. Path (URL r) = ''/healthz''" healthz
      gateway_sh "\<lambda>r. Path (URL r) = ''/healthz''" healthz globals0 world0 None plain_writer]
  by (simp add: gateway_rt_def gateway_sh_def user_option_def Init_fields healthz_def
      wrapped_transport_def refusing_transport_def not_found_handler_def)


text \<open>
  C3. On a request that is not filtered, the client wrapper and the server wrapper each
  start exactly one span and finish exactly that span exactly once, as their last call,
  whatever the wrapped transport or handler does: return, return an error, or panic (also
  when the stored handler is nil).
\<close>

theorem span_finished_exactly_once:
  assumes "initialized (rt_Option rt)" and "SpanFilter (rt_Option rt) = Some cf" and "\<not> cf req"
    and "initialized (sh_Option sh)" and "SpanFilter (sh_Option sh) = Some sf" and "\<not> sf r"
  shows "(\<exists>name opts sp.
            started (events (RoundTrip g rt req) s) = [(name, opts, sp)] \<and>
            finished (events (RoundTrip g rt req) s) = [sp] \<and>
            last (events (RoundTrip g rt req) s) = Call_Finish sp) \<and>
         (\<exists>name opts sp.
            started (events (Serve g sh h w r) s) = [(name, opts, sp)] \<and>
            finished (events (Serve g sh h w r) s) = [sp] \<and>
            last (events (Serve g sh h w r) s) = Call_Finish sp)"
proof
  from assms(1) obtain cnf utf sf' ob onf where o:
    "ComponentNameFunc (rt_Option rt) = Some cnf" "URLTagFunc (rt_Option rt) = Some utf"
    "SpanFilter (rt_Option rt) = Some sf'" "SpanObserver (rt_Option rt) = Some ob"
    "OperationNameFunc (rt_Option rt) = Some onf"
    by (rule initializedE)
  show "\<exists>name opts sp.
            started (events (RoundTrip g rt req) s) = [(name, opts, sp)] \<and>
            finished (events (RoundTrip g rt req) s) = [sp] \<and>
            last (events (RoundTrip g rt req) s) = Call_Finish sp"
    by (simp add: RoundTrip_traced_events(1) [OF assms(2,3) o(5,2,1,4) refl refl refl refl])
next
  from assms(4) obtain cnf utf sf' ob onf where o:
    "ComponentNameFunc (sh_Option sh) = Some cnf" "URLTagFunc (sh_Option sh) = Some utf"
    "SpanFilter (sh_Option sh) = Some sf'" "SpanObserver (sh_Option sh) = Some ob"
    "OperationNameFunc (sh_Option sh) = Some onf"
    by (rule initializedE)
  show "\<exists>name opts sp.
            started (events (Serve g sh h w r) s) = [(name, opts, sp)] \<and>
            finished (events (Serve g sh h w r) s) = [sp] \<and>
            last (events (Serve g sh h w r) s) = Call_Finish sp"
    by (simp add: Serve_traced_events [OF assms(5,6) o(5,2,1,4) refl refl refl refl refl refl]
        split: option.splits)
qed

theorem span_finished_exactly_once_witness:
  "initialized (rt_Option gateway_rt) \<and> initialized (sh_Option gateway_sh) \<and>
   SpanFilter (rt_Option gateway_rt) = Some (\<lambda>r. Path (URL r) = ''/healthz'') \<and>
   SpanFilter (sh_Option gateway_sh) = Some (\<lambda>r. Path (URL r) = ''/healthz'') \<and>
   Path (URL get_widgets) \<noteq> ''/healthz'' \<and>
   finished (events (RoundTrip globals0 gateway_rt get_widgets) world0) =
     [\<lparr> sp_handle = 1, sp_context = SpanContext 100 1 \<rparr>] \<and>
   finished (events (Serve globals0 gateway_sh None plain_writer get_widgets) world0) =
     [\<lparr> sp_handle = 1, sp_context = SpanContext 100 1 \<rparr>]"
proof -
  have i: "initialized (rt_Option gateway_rt)" "initialized (sh_Option gateway_sh)"
    by (simp_all add: gateway_rt_def gateway_sh_def)
  have f: "SpanFilter (rt_Option gateway_rt) = Some (\<lambda>r. Path (URL r) = ''/healthz'')"
    "SpanFilter (sh_Option gateway_sh) = Some (\<lambda>r. Path (URL r) = ''/healthz'')"
    by (simp_all add: gateway_defs)
  have n: "\<not> (\<lambda>r. Path (URL r) = ''/healthz'') get_widgets"
    by (simp add: get_widgets_def)
  have c: "started (events (RoundTrip globals0 gateway_rt get_widgets) world0) =
      [(''HTTP GET /widgets/42'', [SpanKindRPCClient], \<lparr> sp_handle = 1, sp_context = SpanContext 100 1 \<rparr>)]"
    by (simp add: RoundTrip_def tracing_calls Let_def gateway_defs default_OperationNameFunc_def)
  have d: "started (events (Serve globals0 gateway_sh None plain_writer get_widgets) world0) =
      [(''HTTP GET /widgets/42'', [RPCServerOption None], \<lparr> sp_handle = 1, sp_context = SpanContext 100 1 \<rparr>)]"
    by (simp add: Serve_def tracing_calls Let_def case_prod_beta gateway_defs default_OperationNameFunc_def)
  from span_finished_exactly_once [OF i(1) f(1) n i(2) f(2) n, of globals0 world0 None plain_writer]
    i f n c d
  show ?thesis by auto
qed




text \<open>
  C4. On a request that is not filtered, the client wrapper starts one span: with the one
  reference \<open>ChildOf\<close> the context of the span active in the request's context when there
  is one, and otherwise with no reference and the kind tag of an RPC client. The server
  wrapper starts one span, of kind RPC server, whose references are the span context that
  the tracer extracts from the headers of the request (as the pre-hook left it), if any; so
  when those headers are what the tracer injects for a context \<open>c\<close> and the tracer reads
  that back, the span is a child of \<open>c\<close>.
\<close>

theorem parent_propagation:
  assumes "initialized (rt_Option rt)" and "SpanFilter (rt_Option rt) = Some cf" and "\<not> cf req"
    and "initialized (sh_Option sh)" and "SpanFilter (sh_Option sh) = Some sf" and "\<not> sf r"
  shows "(\<exists>name opts.
            started (events (RoundTrip g rt req) s) =
              [(name, opts, StartSpan (GetTracer g (rt_Option rt)) name opts)] \<and>
            references opts =
              (case ActiveSpan req of None \<Rightarrow> [] | Some pspan \<Rightarrow> [sp_context pspan]) \<and>
            (ActiveSpan req = None \<longrightarrow> span_kind opts = Some ''client'')) \<and>
         (\<exists>name opts.
            started (events (Serve g sh h w r) s) =
              [(name, opts, StartSpan (GetTracer g (sh_Option sh)) name opts)] \<and>
            references opts =
              (case fst (Extract (GetTracer g (sh_Option sh)) (Header (snd (pre_hook sh w r)))) of
                 None \<Rightarrow> [] | Some c \<Rightarrow> [c]) \<and>
            span_kind opts = Some ''server'' \<and>
            (Header (snd (pre_hook sh w r)) = Inject (GetTracer g (sh_Option sh)) c h0 \<and>
             fst (Extract (GetTracer g (sh_Option sh)) (Inject (GetTracer g (sh_Option sh)) c h0)) = Some c
             \<longrightarrow> references opts = [c]))"
proof
  from assms(1) obtain cnf utf sf' ob onf where o:
    "ComponentNameFunc (rt_Option rt) = Some cnf" "URLTagFunc (rt_Option rt) = Some utf"
    "SpanFilter (rt_Option rt) = Some sf'" "SpanObserver (rt_Option rt) = Some ob"
    "OperationNameFunc (rt_Option rt) = Some onf"
    by (rule initializedE)
  show "\<exists>name opts.
            started (events (RoundTrip g rt req) s) =
              [(name, opts, StartSpan (GetTracer g (rt_Option rt)) name opts)] \<and>
            references opts =
              (case ActiveSpan req of None \<Rightarrow> [] | Some pspan \<Rightarrow> [sp_context pspan]) \<and>
            (ActiveSpan req = None \<longrightarrow> span_kind opts = Some ''client'')"
    by (simp add: RoundTrip_traced_events(1) [OF assms(2,3) o(5,2,1,4) refl refl refl refl]
        split: option.splits)
next
  from assms(4) obtain cnf utf sf' ob onf where o:
    "ComponentNameFunc (sh_Option sh) = Some cnf" "URLTagFunc (sh_Option sh) = Some utf"
    "SpanFilter (sh_Option sh) = Some sf'" "SpanObserver (sh_Option sh) = Some ob"
    "OperationNameFunc (sh_Option sh) = Some onf"
    by (rule initializedE)
  show "\<exists>name opts.
            started (events (Serve g sh h w r) s) =
              [(name, opts, StartSpan (GetTracer g (sh_Option sh)) name opts)] \<and>
            references opts =
              (case fst (Extract (GetTracer g (sh_Option sh)) (Header (snd (pre_hook sh w r)))) of
                 None \<Rightarrow> [] | Some c \<Rightarrow> [c]) \<and>
            span_kind opts = Some ''server'' \<and>
            (Header (snd (pre_hook sh w r)) = Inject (GetTracer g (sh_Option sh)) c h0 \<and>
             fst (Extract (GetTracer g (sh_Option sh)) (Inject (GetTracer g (sh_Option sh)) c h0)) = Some c
             \<longrightarrow> references opts = [c])"
    by (cases "fst (Extract (GetTracer g (sh_Option sh)) (Header (snd (pre_hook sh w r))))")
       (auto simp add: Serve_traced_events [OF assms(5,6) o(5,2,1,4) refl refl refl refl refl refl]
        split: option.splits)
qed

theorem parent_propagation_witness:
  "initialized (rt_Option gateway_rt) \<and> initialized (sh_Option gateway_sh) \<and>
   SpanFilter (rt_Option gateway_rt) = Some (\<lambda>r. Path (URL r) = ''/healthz'') \<and>
   SpanFilter (sh_Option gateway_sh) = Some (\<lambda>r. Path (URL r) = ''/healthz'') \<and>
   Path (URL child_widgets) \<noteq> ''/healthz'' \<and> Path (URL traced_widgets) \<noteq> ''/healthz'' \<and>
   ActiveSpan child_widgets = Some \<lparr> sp_handle = 9, sp_context = SpanContext 7 3 \<rparr> \<and>
   Header (snd (pre_hook gateway_sh plain_writer traced_widgets)) =
     Inject (GetTracer globals0 (sh_Option gateway_sh)) (SpanContext 7 3) [] \<and>
   fst (Extract (GetTracer globals0 (sh_Option gateway_sh))
          (Inject (GetTracer globals0 (sh_Option gateway_sh)) (SpanContext 7 3) [])) =
     Some (SpanContext 7 3) \<and>
   started (events (RoundTrip globals0 gateway_rt child_widgets) world0) =
     [(''HTTP GET /widgets/42'', [ChildOf (SpanContext 7 3)],
       \<lparr> sp_handle = 1, sp_context = SpanContext 7 1 \<rparr>)] \<and>
   started (events (Serve globals0 gateway_sh None plain_writer traced_widgets) world0) =
     [(''HTTP GET /widgets/42'', [RPCServerOption (Some (SpanContext 7 3))],
       \<lparr> sp_handle = 1, sp_context = SpanContext 7 1 \<rparr>)]"
proof -
  have i: "initialized (rt_Option gateway_rt)" "initialized (sh_Option gateway_sh)"
    by (simp_all add: gateway_rt_def gateway_sh_def)
  have f: "SpanFilter (rt_Option gateway_rt) = Some (\<lambda>r. Path (URL r) = ''/healthz'')"
    "SpanFilter (sh_Option gateway_sh) = Some (\<lambda>r. Path (URL r) = ''/healthz'')"
    by (simp_all add: gateway_defs)
  have n: "\<not> (\<lambda>r. Path (URL r) = ''/healthz'') child_widgets"
    "\<not> (\<lambda>r. Path (URL r) = ''/healthz'') traced_widgets"
    by (simp_all add: child_widgets_def traced_widgets_def get_widgets_def)
  have a: "ActiveSpan child_widgets = Some \<lparr> sp_handle = 9, sp_context = SpanContext 7 3 \<rparr>"
    by (simp add: child_widgets_def)
  have x: "Header (snd (pre_hook gateway_sh plain_writer traced_widgets)) =
     Inject (GetTracer globals0 (sh_Option gateway_sh)) (SpanContext 7 3) []"
    "fst (Extract (GetTracer globals0 (sh_Option gateway_sh))
          (Inject (GetTracer globals0 (sh_Option gateway_sh)) (SpanContext 7 3) [])) =
     Some (SpanContext 7 3)"
    by (simp_all add: gateway_defs traced_widgets_def)
  have c: "started (events (RoundTrip globals0 gateway_rt child_widgets) world0) =
     [(''HTTP GET /widgets/42'', [ChildOf (SpanContext 7 3)],
       \<lparr> sp_handle = 1, sp_context = SpanContext 7 1 \<rparr>)]"
    by (simp add: RoundTrip_def tracing_calls Let_def gateway_defs child_widgets_def
        default_OperationNameFunc_def)
  have d: "started (events (Serve globals0 gateway_sh None plain_writer traced_widgets) world0) =
     [(''HTTP GET /widgets/42'', [RPCServerOption (Some (SpanContext 7 3))],
       \<lparr> sp_handle = 1, sp_context = SpanContext 7 1 \<rparr>)]"
    by (simp add: Serve_def tracing_calls Let_def case_prod_beta gateway_defs traced_widgets_def
        default_OperationNameFunc_def)
  from parent_propagation [OF i(1) f(1) n(1) i(2) f(2) n(2), of globals0 world0 None plain_writer
      "SpanContext 7 3" "[]"] i f n a x c d
  show ?thesis by simp
qed



text \<open>
  C7. For a metrics wrapper whose vectors are there (set up by an earlier call, or
  registered by this one), whose histogram buckets are strictly increasing, and for a
  request whose method and path, as the delegated call leaves them, are valid UTF-8 where
  they are label values: the run of \<open>Serve\<close> ends with exactly one counter increment
  followed by exactly one histogram observation, after the delegated call (whether it
  returned or panicked), both with the same label map. The keys of the map are the label
  names in use, among method, path and code. The value of code is the decimal rendering
  of 200 when the writer has no \<open>StatusCode\<close> method, and of the status code the writer
  reports after the delegated call otherwise; method and path are those of the request as
  the delegated call leaves it.
\<close>

theorem metrics_recorded_once_with_same_labels:
  assumes "ready sh s" and "sorted_wrt (<) (buckets_in_use sh)"
    and "values_valid (labels_in_use sh) (request_after h w r (prom_final (init sh s)))"
  shows "\<exists>pre c hn ls d.
     prom_events (prom_Serve sh h w r s) = pre @ [Call_Inc c ls, Call_Observe hn ls d] \<and>
     increments pre = [] \<and> observations pre = [] \<and>
     increments (prom_events (prom_Serve sh h w r s)) = [(c, ls)] \<and>
     observations (prom_events (prom_Serve sh h w r s)) = [(hn, ls, d)] \<and>
     distinct (map fst ls) \<and>
     set (map fst ls) = set (labels_in_use sh) \<and>
     labels (handler_after (prom_Serve sh h w r s)) = labels_in_use sh \<and>
     set (map fst ls) \<subseteq> {''method'', ''path'', ''code''} \<and>
     (''code'' \<in> set (map fst ls) \<longrightarrow>
        map_of ls ''code'' =
          Some (Sprint (if has_StatusCode w
                        then codes (prom_final (prom_Serve sh h w r s)) (wobj w) else 200))) \<and>
     (''method'' \<in> set (map fst ls) \<longrightarrow>
        map_of ls ''method'' = Some (Method (request_after h w r (prom_final (init sh s))))) \<and>
     (''path'' \<in> set (map fst ls) \<longrightarrow>
        map_of ls ''path'' = Some (Path (URL (request_after h w r (prom_final (init sh s))))))"
proof -
  define s0 where "s0 = prom_final (init sh s)"
  define sh1 where "sh1 = handler_after (init sh s)"
  define r1 where "r1 = request_after h w r s0"
  define s1 where "s1 = final (dispatch h w r) s0"
  define code where "code = (if has_StatusCode w then codes s1 (wobj w) else 200)"
  define lbls where "lbls = label_loop (labels sh1) code r1 (length (labels sh1)) []"
  define pre where "pre = prom_events (init sh s) @ events (dispatch h w r) s0"
  note i = init_ready [OF assms(1)]
  from prom_Serve_run [OF assms(1,2) s0_def sh1_def assms(3) [folded s0_def] s1_def code_def
      lbls_def [unfolded r1_def]]
  obtain cv where "\<exists>hv. requestsTotal sh1 = Some cv \<and> requestDurations sh1 = Some hv \<and>
     prom_Serve sh h w r s =
     (sh1, result (dispatch h w r) s0,
      prom_events (init sh s) @ events (dispatch h w r) s0 @
        [Call_Inc (vec_Name cv) lbls,
         Call_Observe (vec_Name hv) lbls (int (now s1) - int (now s0))],
      s1)" ..
  then obtain hv where "requestsTotal sh1 = Some cv \<and> requestDurations sh1 = Some hv \<and>
     prom_Serve sh h w r s =
     (sh1, result (dispatch h w r) s0,
      prom_events (init sh s) @ events (dispatch h w r) s0 @
        [Call_Inc (vec_Name cv) lbls,
         Call_Observe (vec_Name hv) lbls (int (now s1) - int (now s0))],
      s1)" ..
  then have run0: "prom_Serve sh h w r s =
     (sh1, result (dispatch h w r) s0,
      prom_events (init sh s) @ events (dispatch h w r) s0 @
        [Call_Inc (vec_Name cv) lbls,
         Call_Observe (vec_Name hv) lbls (int (now s1) - int (now s0))],
      s1)"
    by (rule conjunct2 [THEN conjunct2])
  then have run: "prom_Serve sh h w r s =
     (sh1, result (dispatch h w r) s0,
      pre @ [Call_Inc (vec_Name cv) lbls,
             Call_Observe (vec_Name hv) lbls (int (now s1) - int (now s0))],
      s1)"
    by (simp add: pre_def)
  have su: "set_up sh1"
    using i(2) by (simp add: sh1_def)
  then have d: "distinct (labels sh1)"
    by (simp add: set_up_def)
  have lu: "labels sh1 = labels_in_use sh"
    using i(4) by (simp add: sh1_def)
  note l = label_loop_set_up [OF d set_up_subset [OF su] lbls_def]
  have sub: "set (labels sh1) \<subseteq> {''method'', ''path'', ''code''}"
    using su by (rule set_up_subset)
  have vals: "''code'' \<in> set (labels sh1) \<longrightarrow> map_of lbls ''code'' = Some (Sprint code)"
    "''method'' \<in> set (labels sh1) \<longrightarrow> map_of lbls ''method'' = Some (Method r1)"
    "''path'' \<in> set (labels sh1) \<longrightarrow> map_of lbls ''path'' = Some (Path (URL r1))"
    by (simp_all add: l(4) label_value_def)
  have "prom_events (prom_Serve sh h w r s) =
       pre @ [Call_Inc (vec_Name cv) lbls,
              Call_Observe (vec_Name hv) lbls (int (now s1) - int (now s0))] \<and>
     increments pre = [] \<and> observations pre = [] \<and>
     increments (prom_events (prom_Serve sh h w r s)) = [(vec_Name cv, lbls)] \<and>
     observations (prom_events (prom_Serve sh h w r s)) =
       [(vec_Name hv, lbls, int (now s1) - int (now s0))] \<and>
     distinct (map fst lbls) \<and>
     set (map fst lbls) = set (labels_in_use sh) \<and>
     labels (handler_after (prom_Serve sh h w r s)) = labels_in_use sh \<and>
     set (map fst lbls) \<subseteq> {''method'', ''path'', ''code''} \<and>
     (''code'' \<in> set (map fst lbls) \<longrightarrow>
        map_of lbls ''code'' =
          Some (Sprint (if has_StatusCode w
                        then codes (prom_final (prom_Serve sh h w r s)) (wobj w) else 200))) \<and>
     (''method'' \<in> set (map fst lbls) \<longrightarrow>
        map_of lbls ''method'' = Some (Method (request_after h w r (prom_final (init sh s))))) \<and>
     (''path'' \<in> set (map fst lbls) \<longrightarrow>
        map_of lbls ''path'' = Some (Path (URL (request_after h w r (prom_final (init sh s))))))"
    using l(1,2) sub vals i(6,7) lu
    by (simp add: run prom_events_def handler_after_def prom_final_def pre_def code_def
        r1_def s0_def split: if_splits)
  then show ?thesis by blast
qed

theorem metrics_recorded_once_with_same_labels_witness:
  "ready metrics_sh world0 \<and> sorted_wrt (<) (buckets_in_use metrics_sh) \<and>
   labels_in_use metrics_sh = [''method'', ''code''] \<and>
   request_after (Some rewriting_handler) status_writer get_widgets
     (prom_final (init metrics_sh world0)) = get_widgets\<lparr> Method := ''HEAD'' \<rparr> \<and>
   values_valid (labels_in_use metrics_sh) (get_widgets\<lparr> Method := ''HEAD'' \<rparr>) \<and>
   prom_events (prom_Serve metrics_sh (Some rewriting_handler) status_writer get_widgets world0) =
     [Call_NewCounterVec None [] [] ''http_requests_total'' [''method'', ''code''],
      Call_NewHistogramVec None [] [] ''http_request_duration_seconds'' DefaultHistogramBuckets
        [''method'', ''code''],
      Call_ServeHTTP 9 status_writer get_widgets,
      Call_Inc ''http_requests_total'' [(''code'', ''204''), (''method'', ''HEAD'')],
      Call_Observe ''http_request_duration_seconds'' [(''code'', ''204''), (''method'', ''HEAD'')] 7] \<and>
   increments
     (prom_events (prom_Serve metrics_sh (Some not_found_handler) plain_writer get_widgets world0)) =
     [(''http_requests_total'', [(''code'', ''200''), (''method'', ''GET'')])]"
proof -
  have rd: "ready metrics_sh world0"
    by (simp add: ready_def can_register_def metrics_sh_def prom_NewServerHandler_def world0_def
        BuildFQName_def valid_metric_name_def name_start_def name_char_def)
  have so: "sorted_wrt (<) (buckets_in_use metrics_sh)"
    by (simp add: buckets_in_use_def metrics_sh_def prom_NewServerHandler_def
        DefaultHistogramBuckets_def)
  have lu: "labels_in_use metrics_sh = [''method'', ''code'']"
    by (simp add: labels_in_use_def metrics_sh_def prom_NewServerHandler_def)
  have ra: "request_after (Some rewriting_handler) status_writer get_widgets
     (prom_final (init metrics_sh world0)) = get_widgets\<lparr> Method := ''HEAD'' \<rparr>"
    "request_after (Some not_found_handler) plain_writer get_widgets
     (prom_final (init metrics_sh world0)) = get_widgets"
    by (simp_all add: request_after_def rewriting_handler_def not_found_handler_def)
  have vv: "values_valid (labels_in_use metrics_sh) (get_widgets\<lparr> Method := ''HEAD'' \<rparr>)"
    by (simp add: lu values_valid_def valid_utf8_def)
  have s204: "Sprint 204 = ''204''" and s200: "Sprint 200 = ''200''"
    by (simp_all add: Sprint_def digits.simps)
  have a: "prom_events (prom_Serve metrics_sh (Some rewriting_handler) status_writer get_widgets world0) =
     [Call_NewCounterVec None [] [] ''http_requests_total'' [''method'', ''code''],
      Call_NewHistogramVec None [] [] ''http_request_duration_seconds'' DefaultHistogramBuckets
        [''method'', ''code''],
      Call_ServeHTTP 9 status_writer get_widgets,
      Call_Inc ''http_requests_total'' [(''code'', ''204''), (''method'', ''HEAD'')],
      Call_Observe ''http_request_duration_seconds'' [(''code'', ''204''), (''method'', ''HEAD'')] 7]"
    by (simp add: metrics_run_defs metrics_sh_def rewriting_handler_def status_writer_def
        world0_def numeral_2_eq_2 s204 get_widgets_def valid_utf8_def DefaultHistogramBuckets_def)
  have b: "increments
     (prom_events (prom_Serve metrics_sh (Some not_found_handler) plain_writer get_widgets world0)) =
     [(''http_requests_total'', [(''code'', ''200''), (''method'', ''GET'')])]"
    by (simp add: metrics_run_defs metrics_sh_def not_found_handler_def plain_writer_def
        world0_def numeral_2_eq_2 s200 get_widgets_def valid_utf8_def DefaultHistogramBuckets_def)
  from metrics_recorded_once_with_same_labels [OF rd so vv [folded ra(1)]] rd so lu ra(1) vv a b
  show ?thesis by simp
qed

text \<open>
  C7, as stated for every request, fails: with the path label on, the request
  \<open>GET /caf%E9\<close> has a path that is not valid UTF-8, \<open>With\<close> of the counter vector panics,
  and the run has no increment and no observation.
\<close>

theorem no_metric_for_invalid_path:
  "opt_Path (psh_Option path_sh) \<and> \<not> valid_utf8 (Path (URL cafe)) \<and>
   prom_events (prom_Serve path_sh (Some not_found_handler) status_writer cafe world0) =
     [Call_NewCounterVec None [] [] ''http_requests_total'' [''method'', ''path'', ''code''],
      Call_NewHistogramVec None [] [] ''http_request_duration_seconds'' DefaultHistogramBuckets
        [''method'', ''path'', ''code''],
      Call_ServeHTTP 7 status_writer cafe] \<and>
   increments (prom_events (prom_Serve path_sh (Some not_found_handler) status_writer cafe world0)) = [] \<and>
   observations (prom_events (prom_Serve path_sh (Some not_found_handler) status_writer cafe world0)) = [] \<and>
   prom_result (prom_Serve path_sh (Some not_found_handler) status_writer cafe world0) =
     Panic InvalidLabelValue"
proof -
  have v: "\<not> valid_utf8 (Path (URL cafe))"
    by (simp add: cafe_def valid_utf8_def)
  have s404: "Sprint 404 = ''404''"
    by (simp add: Sprint_def digits.simps)
  have e: "prom_Serve path_sh (Some not_found_handler) status_writer cafe world0 =
    (path_sh\<lparr> labels := [''method'', ''path'', ''code''],
        requestsTotal := Some \<lparr> vec_Name = ''http_requests_total'',
          vec_labels = [''method'', ''path'', ''code''], vec_buckets = [] \<rparr>,
        requestDurations := Some \<lparr> vec_Name = ''http_request_duration_seconds'',
          vec_labels = [''method'', ''path'', ''code''], vec_buckets = DefaultHistogramBuckets \<rparr>,
        once := True \<rparr>,
     Panic InvalidLabelValue,
     [Call_NewCounterVec None [] [] ''http_requests_total'' [''method'', ''path'', ''code''],
      Call_NewHistogramVec None [] [] ''http_request_duration_seconds'' DefaultHistogramBuckets
        [''method'', ''path'', ''code''],
      Call_ServeHTTP 7 status_writer cafe],
     world0\<lparr> codes := (codes world0)(2 := 404), now := 1005,
        registered := [(None, ''http_request_duration_seconds''), (None, ''http_requests_total'')] \<rparr>)"
    using v
    by (simp add: metrics_run_defs path_sh_def not_found_handler_def status_writer_def
        world0_def numeral_3_eq_3 s404 cafe_def)
  have p: "opt_Path (psh_Option path_sh)"
    by (simp add: path_sh_def)
  from v p show ?thesis
    by (simp add: e prom_events_def prom_result_def)
qed

text \<open>
  C9. The part of the claim the code implements: the tracing \<open>ServeHTTP\<close> is \<open>Serve\<close> with
  the stored handler, and for the metrics handler \<open>ServeHTTP\<close> and \<open>HandleHTTP\<close> both run
  \<open>Serve\<close> with the stored handler, make the same calls and leave the same world and the
  same wrapper, \<open>ServeHTTP\<close> dropping the error. The tracing \<open>HandleHTTP\<close> returns the value
  of a \<open>Serve\<close> that has none, and has no run to compare.
\<close>

theorem metrics_surfaces_share_Serve:
  "ServeHTTP g sh w r = Serve g sh (sh_Handler sh) w r \<and>
   prom_HandleHTTP psh w r s = prom_Serve psh (psh_Handler psh) w r s \<and>
   handler_after (prom_ServeHTTP psh w r s) = handler_after (prom_HandleHTTP psh w r s) \<and>
   prom_events (prom_ServeHTTP psh w r s) = prom_events (prom_HandleHTTP psh w r s) \<and>
   prom_final (prom_ServeHTTP psh w r s) = prom_final (prom_HandleHTTP psh w r s) \<and>
   prom_result (prom_ServeHTTP psh w r s) = discard (prom_result (prom_HandleHTTP psh w r s))"
  by (simp add: ServeHTTP_def prom_HandleHTTP_def prom_ServeHTTP_def
      handler_after_def prom_events_def prom_final_def prom_result_def case_prod_beta)

text \<open>
  C6. The client wrapper makes exactly one call of the wrapped (or default) transport and
  returns exactly what that call produced, a panic included. The metrics wrapper's \<open>Serve\<close>
  returns the error of the handler's \<open>HandleHTTP\<close> when the handler has that method, and
  nil after \<open>ServeHTTP\<close> otherwise, and a panic of the handler propagates, provided the
  deferred recording does not panic: the vectors are there, the buckets are strictly
  increasing, and the method and path used as label values are valid UTF-8. The metrics
  \<open>ServeHTTP\<close> and the handler made by \<open>Middleware\<close> return nothing: they drop that error.
\<close>

theorem outcomes_pass_through:
  assumes "initialized (rt_Option rt)"
    and "ready sh s" and "sorted_wrt (<) (buckets_in_use sh)"
    and "values_valid (labels_in_use sh) (request_after h w r (prom_final (init sh s)))"
  shows "(\<exists>req1.
            round_trips (events (RoundTrip g rt req) s) = [(tid (wrapped_transport g rt), req1)] \<and>
            result (RoundTrip g rt req) s =
              propagate (fst (roundTripper (wrapped_transport g rt) req1 s)) \<and>
            final (RoundTrip g rt req) s = snd (roundTripper (wrapped_transport g rt) req1 s)) \<and>
         prom_result (prom_Serve sh h w r s) =
           (case h of
              None \<Rightarrow> Panic NilDereference
            | Some hh \<Rightarrow>
                (case handleHTTP hh of
                   Some f \<Rightarrow> propagate (fst (f w r (prom_final (init sh s))))
                 | None \<Rightarrow>
                     (case propagate (fst (serveHTTP hh w r (prom_final (init sh s)))) of
                        Return u \<Rightarrow> Return None
                      | Panic p \<Rightarrow> Panic p))) \<and>
         prom_result (prom_ServeHTTP sh w r s) = discard (prom_result (prom_HandleHTTP sh w r s)) \<and>
         prom_result (prom_Middleware_handler sh h w r s) =
           discard (prom_result (prom_Serve sh h w r s))"
proof -
  from assms(1) obtain cnf utf sf ob onf where o:
    "ComponentNameFunc (rt_Option rt) = Some cnf" "URLTagFunc (rt_Option rt) = Some utf"
    "SpanFilter (rt_Option rt) = Some sf" "SpanObserver (rt_Option rt) = Some ob"
    "OperationNameFunc (rt_Option rt) = Some onf"
    by (rule initializedE)
  have a: "\<exists>req1.
            round_trips (events (RoundTrip g rt req) s) = [(tid (wrapped_transport g rt), req1)] \<and>
            result (RoundTrip g rt req) s =
              propagate (fst (roundTripper (wrapped_transport g rt) req1 s)) \<and>
            final (RoundTrip g rt req) s = snd (roundTripper (wrapped_transport g rt) req1 s)"
  proof (cases "sf req")
    case True
    with o(3) have "RoundTrip g rt req = roundTrip g rt req"
      by (simp add: RoundTrip_def)
    then show ?thesis by simp
  next
    case False
    note t = RoundTrip_traced_events [OF o(3) False o(5,2,1,4) refl refl refl refl]
    show ?thesis
      by (simp add: t)
  qed
  from prom_Serve_run [OF assms(2,3) refl refl assms(4) refl refl refl]
  have b: "prom_result (prom_Serve sh h w r s) =
           (case h of
              None \<Rightarrow> Panic NilDereference
            | Some hh \<Rightarrow>
                (case handleHTTP hh of
                   Some f \<Rightarrow> propagate (fst (f w r (prom_final (init sh s))))
                 | None \<Rightarrow>
                     (case propagate (fst (serveHTTP hh w r (prom_final (init sh s)))) of
                        Return u \<Rightarrow> Return None
                      | Panic p \<Rightarrow> Panic p)))"
    by (auto simp: prom_result_def result_dispatch)
  have c: "prom_result (prom_ServeHTTP sh w r s) = discard (prom_result (prom_HandleHTTP sh w r s))"
    "prom_result (prom_Middleware_handler sh h w r s) = discard (prom_result (prom_Serve sh h w r s))"
    by (simp_all add: prom_ServeHTTP_def prom_HandleHTTP_def prom_Middleware_handler_def
        prom_result_def case_prod_beta)
  from a b c show ?thesis by blast
qed

theorem outcomes_pass_through_witness:
  "initialized (rt_Option gateway_rt) \<and> ready failing_sh world0 \<and>
   sorted_wrt (<) (buckets_in_use failing_sh) \<and>
   values_valid (labels_in_use failing_sh)
     (request_after (Some failing_handler) plain_writer get_widgets
        (prom_final (init failing_sh world0))) \<and>
   result (RoundTrip globals0 gateway_rt get_widgets) world0 =
     Return (None, Some ''connection refused'') \<and>
   prom_result (prom_Serve failing_sh (Some failing_handler) plain_writer get_widgets world0) =
     Return (Some ''boom'') \<and>
   prom_result (prom_Middleware_handler failing_sh (Some failing_handler) plain_writer get_widgets
     world0) = Return ()"
proof -
  have i: "initialized (rt_Option gateway_rt)"
    by (simp add: gateway_rt_def)
  have rd: "ready failing_sh world0"
    by (simp add: ready_def can_register_def failing_sh_def prom_NewServerHandler_def world0_def
        BuildFQName_def valid_metric_name_def name_start_def name_char_def)
  have so: "sorted_wrt (<) (buckets_in_use failing_sh)"
    by (simp add: buckets_in_use_def failing_sh_def prom_NewServerHandler_def
        DefaultHistogramBuckets_def)
  have vv: "values_valid (labels_in_use failing_sh)
     (request_after (Some failing_handler) plain_writer get_widgets
        (prom_final (init failing_sh world0)))"
    by (simp add: values_valid_def labels_in_use_def failing_sh_def prom_NewServerHandler_def
        request_after_def failing_handler_def get_widgets_def valid_utf8_def)
  have t: "wrapped_transport globals0 gateway_rt = refusing_transport"
    by (simp add: wrapped_transport_def gateway_rt_def)
  from outcomes_pass_through [OF i rd so vv, of globals0 get_widgets]
  have a: "result (RoundTrip globals0 gateway_rt get_widgets) world0 =
     Return (None, Some ''connection refused'')"
    and b: "prom_result (prom_Serve failing_sh (Some failing_handler) plain_writer get_widgets world0) =
     Return (Some ''boom'')"
    and c: "prom_result (prom_Middleware_handler failing_sh (Some failing_handler) plain_writer
     get_widgets world0) = Return ()"
    by (auto simp: t refusing_transport_def failing_handler_def)
  from i rd so vv a b c show ?thesis by simp
qed

text \<open>
  C6, as stated, fails: the handler's \<open>HandleHTTP\<close> returns the error \<open>boom\<close>, but the
  buckets 2, 1 are not increasing, \<open>With\<close> of the histogram vector panics in the deferred
  \<open>handle\<close> after the increment, and \<open>Serve\<close> panics instead of returning the error.
\<close>

theorem error_replaced_by_bucket_panic:
  "handleHTTP failing_handler \<noteq> None \<and>
   Buckets (psh_Option unsorted_sh) = [2, 1] \<and>
   result (dispatch (Some failing_handler) plain_writer get_widgets)
     (prom_final (init unsorted_sh world0)) = Return (Some ''boom'') \<and>
   prom_result (prom_Serve unsorted_sh (Some failing_handler) plain_writer get_widgets world0) =
     Panic BucketsNotIncreasing \<and>
   increments
     (prom_events (prom_Serve unsorted_sh (Some failing_handler) plain_writer get_widgets world0)) =
     [(''http_requests_total'', [(''code'', ''200''), (''method'', ''GET'')])] \<and>
   observations
     (prom_events (prom_Serve unsorted_sh (Some failing_handler) plain_writer get_widgets world0)) = []"
proof -
  have h: "handleHTTP failing_handler \<noteq> None" "Buckets (psh_Option unsorted_sh) = [2, 1]"
    by (simp_all add: failing_handler_def unsorted_sh_def)
  have d: "result (dispatch (Some failing_handler) plain_writer get_widgets)
     (prom_final (init unsorted_sh world0)) = Return (Some ''boom'')"
    by (simp add: result_dispatch failing_handler_def)
  have s200: "Sprint 200 = ''200''"
    by (simp add: Sprint_def digits.simps)
  have e: "prom_Serve unsorted_sh (Some failing_handler) plain_writer get_widgets world0 =
    (unsorted_sh\<lparr> labels := [''method'', ''code''],
        requestsTotal := Some \<lparr> vec_Name = ''http_requests_total'',
          vec_labels = [''method'', ''code''], vec_buckets = [] \<rparr>,
        requestDurations := Some \<lparr> vec_Name = ''http_request_duration_seconds'',
          vec_labels = [''method'', ''code''], vec_buckets = [2, 1] \<rparr>,
        once := True \<rparr>,
     Panic BucketsNotIncreasing,
     [Call_NewCounterVec None [] [] ''http_requests_total'' [''method'', ''code''],
      Call_NewHistogramVec None [] [] ''http_request_duration_seconds'' [2, 1]
        [''method'', ''code''],
      Call_HandleHTTP 8 plain_writer get_widgets,
      Call_Inc ''http_requests_total'' [(''code'', ''200''), (''method'', ''GET'')]],
     world0\<lparr> codes := (codes world0)(1 := 500),
        registered := [(None, ''http_request_duration_seconds''), (None, ''http_requests_total'')] \<rparr>)"
    by (simp add: metrics_run_defs unsorted_sh_def failing_handler_def plain_writer_def
        world0_def numeral_2_eq_2 s200 get_widgets_def valid_utf8_def)
  from h d show ?thesis
    by (simp add: e prom_events_def prom_result_def)
qed

end
